theory Spec2Isabelle
  imports
    Main
    "HOL-Library.Char_ord"
    "HOL-Library.List_Lexorder"
    "HOL-Library.Product_Lexorder"
    "HOL-Library.AList"
begin

section \<open>Text\<close>

text \<open>
  The script \<^verbatim>\<open>scripts/sync-python.py\<close> works on Python \<^verbatim>\<open>str\<close> values. A
  \<^typ>\<open>string\<close> stands for such a value whose code points are all below 256, one
  \<^typ>\<open>char\<close> per code point; \<open>code_point\<close> reads the code point. Text with code
  points from 256 on is outside this development.
\<close>

definition code_point :: "char \<Rightarrow> nat" where
  "code_point c = of_char c"

definition newline :: char where
  "newline = CHR 0x0A"

text \<open>
  \<^verbatim>\<open>str.isspace\<close> on one code point below 256: tab to carriage return, the four
  separators 0x1C to 0x1F, space, NEL (0x85) and the no-break space (0xA0).
\<close>

definition is_space :: "char \<Rightarrow> bool" where
  "is_space c =
     (let n = code_point c in
      (9 \<le> n \<and> n \<le> 13) \<or> (28 \<le> n \<and> n \<le> 32) \<or> n = 133 \<or> n = 160)"

text \<open>\<^verbatim>\<open>s.strip()\<close>: white space removed at both ends.\<close>

definition strip :: "string \<Rightarrow> string" where
  "strip s = rev (dropWhile is_space (rev (dropWhile is_space s)))"

text \<open>
  \<^verbatim>\<open>str.lower\<close> on one code point below 256: the letters A to Z and the Latin-1
  capitals 0xC0 to 0xDE (the multiplication sign 0xD7 apart) move up by 32; every other
  code point of the range is its own lower case.
\<close>

definition is_upper :: "char \<Rightarrow> bool" where
  "is_upper c =
     (let n = code_point c in
      (65 \<le> n \<and> n \<le> 90) \<or> (192 \<le> n \<and> n \<le> 222 \<and> n \<noteq> 215))"

definition lower_char :: "char \<Rightarrow> char" where
  "lower_char c = (if is_upper c then char_of (code_point c + 32) else c)"

definition lower :: "string \<Rightarrow> string" where
  "lower s = map lower_char s"

text \<open>\<^verbatim>\<open>s.startswith(p)\<close>.\<close>

definition startswith :: "string \<Rightarrow> string \<Rightarrow> bool" where
  "startswith s p = (take (length p) s = p)"

text \<open>
  \<^verbatim>\<open>sub in s\<close> and \<^verbatim>\<open>s.split(sub, 1)\<close> for a non-empty \<open>sub\<close> (the script
  only passes the literals \<^verbatim>\<open>"=="\<close> and \<^verbatim>\<open>":"\<close>): \<open>split_once\<close> cuts \<open>s\<close> at
  the leftmost occurrence of \<open>sub\<close> and is \<open>None\<close> when there is none, where Python
  returns the one-element list \<^verbatim>\<open>[s]\<close>.
\<close>

fun contains :: "string \<Rightarrow> string \<Rightarrow> bool" where
  "contains sub [] = (sub = [])"
| "contains sub (c # cs) = (startswith (c # cs) sub \<or> contains sub cs)"

fun split_once :: "string \<Rightarrow> string \<Rightarrow> (string \<times> string) option" where
  "split_once sub [] = (if sub = [] then Some ([], []) else None)"
| "split_once sub (c # cs) =
     (if startswith (c # cs) sub then Some ([], drop (length sub) (c # cs))
      else (case split_once sub cs of
              None \<Rightarrow> None
            | Some (before, after) \<Rightarrow> Some (c # before, after)))"

text \<open>\<^verbatim>\<open>s.split(c)\<close> for a separator of one character; never the empty list.\<close>

fun split_char :: "char \<Rightarrow> string \<Rightarrow> string list" where
  "split_char sep [] = [[]]"
| "split_char sep (c # cs) =
     (if c = sep then [] # split_char sep cs
      else (case split_char sep cs of
              [] \<Rightarrow> [[c]]
            | field # fields \<Rightarrow> (c # field) # fields))"

text \<open>\<^verbatim>\<open>sep.join(lines)\<close>.\<close>

fun join :: "string \<Rightarrow> string list \<Rightarrow> string" where
  "join sep [] = []"
| "join sep [l] = l"
| "join sep (l # m # ls) = l @ sep @ join sep (m # ls)"

text \<open>
  \<^verbatim>\<open>str(n)\<close> for a length: the decimal digits of a natural number.
\<close>

definition digit_char :: "nat \<Rightarrow> char" where
  "digit_char d = char_of (48 + d)"

fun str_nat :: "nat \<Rightarrow> string" where
  "str_nat n = (if n < 10 then [digit_char n] else str_nat (n div 10) @ [digit_char (n mod 10)])"

declare str_nat.simps [simp del]

section \<open>Package names\<close>

text \<open>
  \<^verbatim>\<open>normalize_package_name\<close> is \<^verbatim>\<open>re.sub(r"[-_.]+", "-", name).lower()\<close>.
  \<open>collapse_seps\<close> is the substitution: scanning from the left, a maximal run of the
  three separator characters is replaced by one hyphen and every other character is
  kept.
\<close>

definition is_sep :: "char \<Rightarrow> bool" where
  "is_sep c \<longleftrightarrow> c = CHR ''-'' \<or> c = CHR ''_'' \<or> c = CHR ''.''"

function collapse_seps :: "string \<Rightarrow> string" where
  "collapse_seps [] = []"
| "collapse_seps (c # cs) =
     (if is_sep c then CHR ''-'' # collapse_seps (dropWhile is_sep cs)
      else c # collapse_seps cs)"
  by pat_completeness auto
termination
  by (relation "measure length") (auto simp: length_dropWhile_le less_Suc_eq_le)

definition normalize_package_name :: "string \<Rightarrow> string" where
  "normalize_package_name name = lower (collapse_seps name)"

section \<open>Requirement strings\<close>

text \<open>
  \<^verbatim>\<open>parse_requirement\<close> first deletes every match of \<^verbatim>\<open>\[.*?\]\<close>. A match starts
  at an opening bracket and ends at the nearest closing bracket, with no line feed in
  between (the dot of a Python pattern matches every character but the line feed).
  \<open>close_bracket\<close> looks for that end and returns the text after it; where there is
  none the opening bracket is kept and the scan goes on behind it.
\<close>

fun close_bracket :: "string \<Rightarrow> string option" where
  "close_bracket [] = None"
| "close_bracket (c # cs) =
     (if c = CHR '']'' then Some cs
      else if c = newline then None
      else close_bracket cs)"

lemma close_bracket_length: "close_bracket cs = Some rest \<Longrightarrow> length rest < length cs"
  by (induction cs) (auto split: if_splits)

function remove_extras :: "string \<Rightarrow> string" where
  "remove_extras [] = []"
| "remove_extras (c # cs) =
     (if c = CHR ''[''
      then (case close_bracket cs of
              Some rest \<Rightarrow> remove_extras rest
            | None \<Rightarrow> c # remove_extras cs)
      else c # remove_extras cs)"
  by pat_completeness auto
termination
  by (relation "measure length") (auto dest: close_bracket_length)

text \<open>
  The name is the match of \<^verbatim>\<open>^([a-zA-Z0-9_-]+)\<close> on the stripped text: the longest
  prefix of ASCII letters, digits, underscores and hyphens, which must not be empty.
\<close>

definition is_name_char :: "char \<Rightarrow> bool" where
  "is_name_char c =
     (let n = code_point c in
      (97 \<le> n \<and> n \<le> 122) \<or> (65 \<le> n \<and> n \<le> 90) \<or> (48 \<le> n \<and> n \<le> 57)
      \<or> c = CHR ''_'' \<or> c = CHR ''-'')"

definition match_name :: "string \<Rightarrow> string option" where
  "match_name s =
     (let token = takeWhile is_name_char s in if token = [] then None else Some token)"

definition parse_requirement :: "string \<Rightarrow> string" where
  "parse_requirement req =
     (case match_name (strip (remove_extras req)) of
        Some name \<Rightarrow> normalize_package_name name
      | None \<Rightarrow> [])"

section \<open>Lines of the package listing\<close>

text \<open>
  \<^verbatim>\<open>parse_freeze_line\<close>. The second test repeats part of the first (a line that
  starts with \<^verbatim>\<open>-e\<close> starts with a hyphen) and is kept as the script has it.
\<close>

definition parse_freeze_line :: "string \<Rightarrow> (string \<times> string) option" where
  "parse_freeze_line line0 =
     (let line = strip line0 in
      if line = [] \<or> startswith line ''#'' \<or> startswith line ''-'' then None
      else if startswith line ''-e'' then None
      else if contains ''=='' line
      then (case split_once ''=='' line of
              Some (name, version) \<Rightarrow> Some (normalize_package_name name, version)
            | None \<Rightarrow> None)
      else None)"

text \<open>
  A Python dictionary keeps its keys in insertion order, and an assignment to a key it
  already holds replaces the value in place. It is an association list with
  \<^const>\<open>AList.update\<close> as the assignment \<^verbatim>\<open>d[k] = v\<close>.
\<close>

type_synonym ('k, 'v) dict = "('k \<times> 'v) list"

definition dict_set :: "'k \<Rightarrow> 'v \<Rightarrow> ('k, 'v) dict \<Rightarrow> ('k, 'v) dict" where
  "dict_set k v d = AList.update k v d"

definition keys :: "('k, 'v) dict \<Rightarrow> 'k set" where
  "keys d = fst ` set d"

text \<open>
  The loop of \<^verbatim>\<open>main\<close> that fills \<^verbatim>\<open>installed\<close> from the lines of the listing
  file. A pair is never falsy, so \<^verbatim>\<open>if parsed:\<close> tests for \<^verbatim>\<open>None\<close> only.
\<close>

fun load_freeze :: "string list \<Rightarrow> (string, string) dict \<Rightarrow> (string, string) dict" where
  "load_freeze [] installed = installed"
| "load_freeze (line # lines) installed =
     (case parse_freeze_line line of
        Some (name, version) \<Rightarrow> load_freeze lines (dict_set name version installed)
      | None \<Rightarrow> load_freeze lines installed)"

section \<open>The manifest\<close>

text \<open>
  \<^verbatim>\<open>tomllib.load\<close> returns nested dictionaries, lists and scalars. The value type
  below keeps apart the shapes \<^verbatim>\<open>get_declared_packages\<close> treats differently:
  strings, arrays, tables, and \<open>TOther\<close> for every other scalar (integer, float,
  boolean, date and time), which the function never looks into.
\<close>

datatype toml = TString string | TArray "toml list" | TTable "(string \<times> toml) list" | TOther

datatype py_error = AttributeError | TypeError | OSError | UnicodeEncodeError

text \<open>\<^verbatim>\<open>d.get(key, default)\<close>: an attribute error where \<open>d\<close> is not a dictionary.\<close>

definition dict_get :: "toml \<Rightarrow> string \<Rightarrow> toml \<Rightarrow> py_error + toml" where
  "dict_get d key dflt =
     (case d of
        TTable entries \<Rightarrow> (case map_of entries key of Some v \<Rightarrow> Inr v | None \<Rightarrow> Inr dflt)
      | _ \<Rightarrow> Inl AttributeError)"

text \<open>
  What \<^verbatim>\<open>for dep in deps\<close> runs over: the elements of a list, the keys of a
  dictionary, the characters of a string; a type error for any other value.
\<close>

definition iterate :: "toml \<Rightarrow> py_error + toml list" where
  "iterate v =
     (case v of
        TArray items \<Rightarrow> Inr items
      | TTable entries \<Rightarrow> Inr (map (\<lambda>(k, _). TString k) entries)
      | TString s \<Rightarrow> Inr (map (\<lambda>c. TString [c]) s)
      | TOther \<Rightarrow> Inl TypeError)"

text \<open>
  One of the three loops of \<^verbatim>\<open>get_declared_packages\<close>: every entry goes through
  \<^verbatim>\<open>parse_requirement\<close>, whose \<^verbatim>\<open>re.sub\<close> raises a type error on anything but
  a string, and a non-empty name is added to the set.
\<close>

fun add_names :: "toml list \<Rightarrow> string set \<Rightarrow> py_error + string set" where
  "add_names [] names = Inr names"
| "add_names (dep # deps) names =
     (case dep of
        TString req \<Rightarrow>
          (let name = parse_requirement req in
           add_names deps (if name \<noteq> [] then insert name names else names))
      | _ \<Rightarrow> Inl TypeError)"

definition collect :: "toml \<Rightarrow> py_error + string set" where
  "collect deps = (case iterate deps of Inl e \<Rightarrow> Inl e | Inr items \<Rightarrow> add_names items {})"

record declared =
  core :: "string set"
  gpu :: "string set"
  staged :: "string set"

definition get_declared_packages :: "(string \<times> toml) list \<Rightarrow> py_error + declared" where
  "get_declared_packages pyproject =
     (case dict_get (TTable pyproject) ''project'' (TTable []) of
        Inl e \<Rightarrow> Inl e
      | Inr project \<Rightarrow>
     (case dict_get project ''dependencies'' (TArray []) of
        Inl e \<Rightarrow> Inl e
      | Inr deps \<Rightarrow>
     (case collect deps of
        Inl e \<Rightarrow> Inl e
      | Inr core_names \<Rightarrow>
     (case dict_get project ''optional-dependencies'' (TTable []) of
        Inl e \<Rightarrow> Inl e
      | Inr opt_deps \<Rightarrow>
     (case dict_get opt_deps ''gpu'' (TArray []) of
        Inl e \<Rightarrow> Inl e
      | Inr gpu_deps \<Rightarrow>
     (case collect gpu_deps of
        Inl e \<Rightarrow> Inl e
      | Inr gpu_names \<Rightarrow>
     (case dict_get opt_deps ''staged'' (TArray []) of
        Inl e \<Rightarrow> Inl e
      | Inr staged_deps \<Rightarrow>
     (case collect staged_deps of
        Inl e \<Rightarrow> Inl e
      | Inr staged_names \<Rightarrow>
          Inr \<lparr>core = core_names, gpu = gpu_names, staged = staged_names\<rparr>))))))))"

section \<open>The reverse-dependency query\<close>

text \<open>
  \<^verbatim>\<open>subprocess.run(["pip", "show", package], ..., timeout=10)\<close> either raises (the
  timeout, or any other exception, such as the executable missing) or returns a
  completed process with a return code and the captured standard output. What it does
  is not the script's to decide: it is a parameter \<open>pip_show\<close> that takes the package
  and the state of the outside world \<open>'w\<close> and returns the outcome and the next state,
  so that an answer may depend on everything that happened before. The handler
  \<^verbatim>\<open>except (subprocess.TimeoutExpired, Exception)\<close> catches both kinds of
  \<open>run_error\<close>; an interrupt of the interpreter (a \<^verbatim>\<open>BaseException\<close> that is
  no \<^verbatim>\<open>Exception\<close>) is not an outcome of the query and is left out.
\<close>

datatype run_error = TimeoutExpired | OtherException

record completed_process =
  returncode :: int
  stdout :: string

type_synonym 'w pip = "string \<Rightarrow> 'w \<Rightarrow> (run_error + completed_process) \<times> 'w"

text \<open>
  The loop over the lines of the output: the first line starting with
  \<^verbatim>\<open>Required-by:\<close> decides. Such a line holds a colon, so the index 1 of the split
  exists; the \<open>None\<close> branch stands for the index error (caught like any exception).
\<close>

fun scan_output :: "string list \<Rightarrow> string list" where
  "scan_output [] = []"
| "scan_output (line # lines) =
     (if startswith line ''Required-by:''
      then (case split_once '':'' line of
              Some (_, rest) \<Rightarrow>
                (let deps = strip rest in
                 if deps \<noteq> [] then map strip (split_char (CHR '','') deps) else [])
            | None \<Rightarrow> [])
      else scan_output lines)"

definition required_by_of :: "run_error + completed_process \<Rightarrow> string list" where
  "required_by_of result =
     (case result of
        Inl _ \<Rightarrow> []
      | Inr completed \<Rightarrow>
          if returncode completed \<noteq> 0 then []
          else scan_output (split_char newline (stdout completed)))"

definition get_required_by :: "'w pip \<Rightarrow> string \<Rightarrow> 'w \<Rightarrow> string list \<times> 'w" where
  "get_required_by pip_show package w =
     (case pip_show package w of (result, w') \<Rightarrow> (required_by_of result, w'))"

section \<open>Classification\<close>

record categories =
  cat_core :: "(string, string) dict"
  cat_gpu :: "(string, string) dict"
  cat_staged :: "(string, string) dict"
  cat_staged_new :: "(string, string) dict"
  cat_transitive :: "(string, string) dict"

definition empty_categories :: categories where
  "empty_categories =
     \<lparr>cat_core = [], cat_gpu = [], cat_staged = [], cat_staged_new = [], cat_transitive = []\<rparr>"

text \<open>
  The body of the loop of \<^verbatim>\<open>categorize_packages\<close> for one item of
  \<^verbatim>\<open>installed.items()\<close>, and the loop. (The script also computes the union
  \<^verbatim>\<open>all_declared\<close> and never uses it.)
\<close>

definition categorize_item ::
  "'w pip \<Rightarrow> declared \<Rightarrow> bool \<Rightarrow> string \<times> string \<Rightarrow> categories \<times> 'w \<Rightarrow> categories \<times> 'w" where
  "categorize_item pip_show decl check_transitive item state =
     (case item of (pkg, version) \<Rightarrow>
      case state of (cats, w) \<Rightarrow>
      let normalized = normalize_package_name pkg in
      if normalized \<in> core decl
      then (cats\<lparr>cat_core := dict_set pkg version (cat_core cats)\<rparr>, w)
      else if normalized \<in> gpu decl
      then (cats\<lparr>cat_gpu := dict_set pkg version (cat_gpu cats)\<rparr>, w)
      else if normalized \<in> staged decl
      then (cats\<lparr>cat_staged := dict_set pkg version (cat_staged cats)\<rparr>, w)
      else if check_transitive
      then (case get_required_by pip_show pkg w of (required_by, w') \<Rightarrow>
            if required_by \<noteq> []
            then (cats\<lparr>cat_transitive := dict_set pkg version (cat_transitive cats)\<rparr>, w')
            else (cats\<lparr>cat_staged_new := dict_set pkg version (cat_staged_new cats)\<rparr>, w'))
      else (cats\<lparr>cat_staged_new := dict_set pkg version (cat_staged_new cats)\<rparr>, w))"

fun categorize_loop ::
  "'w pip \<Rightarrow> declared \<Rightarrow> bool \<Rightarrow> (string, string) dict \<Rightarrow> categories \<times> 'w \<Rightarrow> categories \<times> 'w" where
  "categorize_loop pip_show decl check_transitive [] state = state"
| "categorize_loop pip_show decl check_transitive (item # items) state =
     categorize_loop pip_show decl check_transitive items
       (categorize_item pip_show decl check_transitive item state)"

definition categorize_packages ::
  "'w pip \<Rightarrow> (string, string) dict \<Rightarrow> declared \<Rightarrow> bool \<Rightarrow> 'w \<Rightarrow> categories \<times> 'w" where
  "categorize_packages pip_show installed decl check_transitive w =
     categorize_loop pip_show decl check_transitive installed (empty_categories, w)"

section \<open>The snapshot\<close>

text \<open>
  \<^verbatim>\<open>generate_snapshot\<close>. The formatted time stamp
  \<^verbatim>\<open>datetime.now().strftime('%Y-%m-%d %H:%M')\<close> is the parameter \<open>now\<close>.
  \<^verbatim>\<open>sorted(installed.items())\<close> orders the pairs by name and then by version, each
  compared code point by code point, which is the order of \<^const>\<open>sort\<close> at this type.
\<close>

definition dquote :: char where
  "dquote = CHR 0x22"

definition snapshot_header :: "(string, string) dict \<Rightarrow> string \<Rightarrow> string \<Rightarrow> string \<Rightarrow> string list" where
  "snapshot_header installed cluster version now =
     [''# Python package snapshot'',
      ''# Cluster: '' @ cluster,
      ''# Bioc Version: '' @ version,
      ''# Date: '' @ now,
      ''# Packages: '' @ str_nat (length installed),
      [],
      ''[packages]'']"

definition snapshot_entry :: "string \<times> string \<Rightarrow> string" where
  "snapshot_entry item = (case item of (pkg, ver) \<Rightarrow> pkg @ '' = '' @ [dquote] @ ver @ [dquote])"

definition snapshot_lines :: "(string, string) dict \<Rightarrow> string \<Rightarrow> string \<Rightarrow> string \<Rightarrow> string list" where
  "snapshot_lines installed cluster version now =
     snapshot_header installed cluster version now @ map snapshot_entry (sort installed)"

definition generate_snapshot :: "(string, string) dict \<Rightarrow> string \<Rightarrow> string \<Rightarrow> string \<Rightarrow> string" where
  "generate_snapshot installed cluster version now =
     join [newline] (snapshot_lines installed cluster version now)"

section \<open>The program\<close>

text \<open>
  \<^verbatim>\<open>main\<close> after the command line is parsed. The two input files are given by
  their contents: the lines of the listing and the parsed manifest. Writing the snapshot
  (\<^verbatim>\<open>args.output.write_text(snapshot)\<close>) is an effect on the outside world that may
  raise, for a path that cannot be written or a text that cannot be encoded; like the
  query it is a parameter, \<open>write_text\<close>, that takes the path, the text and the world
  and returns an error or nothing, and the next world.

  A run either raises or reaches \<^verbatim>\<open>sys.exit\<close>. It raises where
  \<^verbatim>\<open>get_declared_packages\<close> does, before anything is classified, and where the
  snapshot cannot be written, after the classification and before the status is chosen;
  neither exception is caught. A run that reaches the end returns the categories, the
  snapshot written (the path and the text, when \<^verbatim>\<open>--output\<close> is given) and the
  status passed to \<^verbatim>\<open>sys.exit\<close>. The two \<^verbatim>\<open>print\<close> calls are taken to succeed
  and the text of the report is not part of the model.
\<close>

record args =
  freeze :: "string list"
  pyproject :: "(string \<times> toml) list"
  output_path :: "string option"
  cluster :: string
  version :: string
  skip_transitive_check :: bool

record outcome =
  sorted_into :: categories
  written :: "(string \<times> string) option"
  status :: int

type_synonym 'w writer = "string \<Rightarrow> string \<Rightarrow> 'w \<Rightarrow> (py_error + unit) \<times> 'w"

definition exit_status :: "categories \<Rightarrow> int" where
  "exit_status cats = (if cat_staged_new cats \<noteq> [] then 1 else 0)"

definition main ::
  "'w pip \<Rightarrow> 'w writer \<Rightarrow> string \<Rightarrow> args \<Rightarrow> 'w \<Rightarrow> (py_error + outcome) \<times> 'w" where
  "main pip_show write_text now a w =
     (let installed = load_freeze (freeze a) [] in
      case get_declared_packages (pyproject a) of
        Inl e \<Rightarrow> (Inl e, w)
      | Inr decl \<Rightarrow>
          (case categorize_packages pip_show installed decl (\<not> skip_transitive_check a) w of
             (cats, w1) \<Rightarrow>
               (case output_path a of
                  None \<Rightarrow>
                    (Inr \<lparr>sorted_into = cats, written = None, status = exit_status cats\<rparr>, w1)
                | Some path \<Rightarrow>
                    (let snapshot = generate_snapshot installed (cluster a) (version a) now in
                     case write_text path snapshot w1 of
                       (Inl e, w2) \<Rightarrow> (Inl e, w2)
                     | (Inr _, w2) \<Rightarrow>
                         (Inr \<lparr>sorted_into = cats, written = Some (path, snapshot),
                               status = exit_status cats\<rparr>, w2)))))"

text \<open>
  The status the process ends with: the interpreter exits with 1 on an exception that
  nothing catches, and with the argument of \<^verbatim>\<open>sys.exit\<close> otherwise.
\<close>

definition process_status :: "py_error + outcome \<Rightarrow> int" where
  "process_status result = (case result of Inl _ \<Rightarrow> 1 | Inr out \<Rightarrow> status out)"

section \<open>Buckets\<close>

text \<open>
  The five keys of the \<^verbatim>\<open>categories\<close> dictionary, \<^verbatim>\<open>categories[b]\<close>, and the
  assignment \<^verbatim>\<open>categories[b][pkg] = version\<close>.
\<close>

datatype bucket = Core | Gpu | Staged | Staged_new | Transitive

definition bucket_dict :: "bucket \<Rightarrow> categories \<Rightarrow> (string, string) dict" where
  "bucket_dict b cats =
     (case b of
        Core \<Rightarrow> cat_core cats
      | Gpu \<Rightarrow> cat_gpu cats
      | Staged \<Rightarrow> cat_staged cats
      | Staged_new \<Rightarrow> cat_staged_new cats
      | Transitive \<Rightarrow> cat_transitive cats)"

definition assign :: "bucket \<Rightarrow> string \<Rightarrow> string \<Rightarrow> categories \<Rightarrow> categories" where
  "assign b pkg ver cats =
     (case b of
        Core \<Rightarrow> cats\<lparr>cat_core := dict_set pkg ver (cat_core cats)\<rparr>
      | Gpu \<Rightarrow> cats\<lparr>cat_gpu := dict_set pkg ver (cat_gpu cats)\<rparr>
      | Staged \<Rightarrow> cats\<lparr>cat_staged := dict_set pkg ver (cat_staged cats)\<rparr>
      | Staged_new \<Rightarrow> cats\<lparr>cat_staged_new := dict_set pkg ver (cat_staged_new cats)\<rparr>
      | Transitive \<Rightarrow> cats\<lparr>cat_transitive := dict_set pkg ver (cat_transitive cats)\<rparr>)"

text \<open>
  The rule of the specification, in its words: the first match in the order core, gpu,
  staged; then transitive when the lookup is enabled and reports a dependent; otherwise
  staged_new. \<open>name\<close> is the normalised name.
\<close>

definition spec_bucket :: "declared \<Rightarrow> bool \<Rightarrow> bool \<Rightarrow> string \<Rightarrow> bucket" where
  "spec_bucket decl lookup_enabled has_dependents name =
     (if name \<in> core decl then Core
      else if name \<in> gpu decl then Gpu
      else if name \<in> staged decl then Staged
      else if lookup_enabled \<and> has_dependents then Transitive
      else Staged_new)"

text \<open>
  The bucket the rule names for a package when the loop reaches it in the world \<open>w\<close>,
  and the property that no package is in two buckets.
\<close>

definition item_bucket :: "'w pip \<Rightarrow> declared \<Rightarrow> bool \<Rightarrow> string \<Rightarrow> 'w \<Rightarrow> bucket" where
  "item_bucket pip_show decl check_transitive pkg w =
     spec_bucket decl check_transitive (fst (get_required_by pip_show pkg w) \<noteq> [])
       (normalize_package_name pkg)"

definition disjoint_buckets :: "categories \<Rightarrow> bool" where
  "disjoint_buckets cats \<longleftrightarrow>
     (\<forall>b b'. b \<noteq> b' \<longrightarrow> keys (bucket_dict b cats) \<inter> keys (bucket_dict b' cats) = {})"

text \<open>
  A failed query: \<^verbatim>\<open>subprocess.run\<close> raised (the timeout or another exception),
  the return code is not zero, or no line of the output starts with
  \<^verbatim>\<open>Required-by:\<close>.
\<close>

definition query_failed :: "run_error + completed_process \<Rightarrow> bool" where
  "query_failed result =
     (case result of
        Inl _ \<Rightarrow> True
      | Inr completed \<Rightarrow>
          returncode completed \<noteq> 0
          \<or> \<not> list_ex (\<lambda>line. startswith line ''Required-by:'')
                (split_char newline (stdout completed)))"

section \<open>Declared names\<close>

text \<open>
  The names a list of requirement strings declares (the non-empty results of
  \<^verbatim>\<open>parse_requirement\<close>), and the property that no name is in two of the three
  declared sets.
\<close>

definition declared_names :: "string list \<Rightarrow> string set" where
  "declared_names reqs = parse_requirement ` set reqs - {[]}"

definition disjoint_declared :: "declared \<Rightarrow> bool" where
  "disjoint_declared decl \<longleftrightarrow>
     core decl \<inter> gpu decl = {} \<and> core decl \<inter> staged decl = {} \<and> gpu decl \<inter> staged decl = {}"

section \<open>An example run\<close>

text \<open>
  Five installed packages, three of them declared, and a query whose answers depend on
  the world: the world counts the queries, the first one is answered with two
  dependents and every later one times out.
\<close>

definition example_installed :: "(string, string) dict" where
  "example_installed =
     [(''numpy'', ''1.26''), (''torch'', ''2.1''), (''six'', ''1.16''), (''mytool'', ''0.1''),
      (''scanpy'', ''1.10'')]"

definition example_declared :: declared where
  "example_declared = \<lparr>core = {''numpy''}, gpu = {''torch''}, staged = {''scanpy''}\<rparr>"

definition example_pip :: "nat pip" where
  "example_pip package n =
     (if n = 0
      then Inr \<lparr>returncode = 0,
                stdout = ''Name: '' @ package @ [newline] @ ''Required-by: pandas, scipy''\<rparr>
      else Inl TimeoutExpired,
      Suc n)"

definition example_categories :: categories where
  "example_categories =
     \<lparr>cat_core = [(''numpy'', ''1.26'')], cat_gpu = [(''torch'', ''2.1'')],
      cat_staged = [(''scanpy'', ''1.10'')], cat_staged_new = [(''mytool'', ''0.1'')],
      cat_transitive = [(''six'', ''1.16'')]\<rparr>"

text \<open>
  A query that fails every time, in turn in each of the four ways: the timeout, another
  exception, a return code other than zero, and an output without a
  \<^verbatim>\<open>Required-by:\<close> line.
\<close>

definition failing_pip :: "nat pip" where
  "failing_pip package n =
     (if n mod 4 = 0 then Inl TimeoutExpired
      else if n mod 4 = 1 then Inl OtherException
      else if n mod 4 = 2 then Inr \<lparr>returncode = 1, stdout = ''Required-by: pandas''\<rparr>
      else Inr \<lparr>returncode = 0, stdout = ''WARNING: Package(s) not found''\<rparr>,
      Suc n)"

text \<open>
  The same packages at other versions, and a query whose answer depends on the package
  only.
\<close>

definition example_upgraded :: "(string, string) dict" where
  "example_upgraded =
     [(''numpy'', ''2.0''), (''torch'', ''2.2''), (''six'', ''1.17''), (''mytool'', ''0.2''),
      (''scanpy'', ''1.11'')]"

definition static_pip :: "nat pip" where
  "static_pip package n =
     (if package = ''six''
      then Inr \<lparr>returncode = 0, stdout = ''Required-by: pandas''\<rparr>
      else Inl TimeoutExpired,
      Suc n)"

text \<open>A manifest with two dependency lists and no staged group.\<close>

definition example_project :: "(string \<times> toml) list" where
  "example_project =
     [(''name'', TString ''rbioc''),
      (''dependencies'',
       TArray [TString ''numpy>=1.26'', TString ''scanpy[cuda12]>=1.10'', TString ''###'']),
      (''optional-dependencies'', TTable [(''gpu'', TArray [TString ''Torch'' ])])]"

definition example_manifest :: "(string \<times> toml) list" where
  "example_manifest = [(''project'', TTable example_project)]"

text \<open>
  Two worlds for the snapshot: one where every write succeeds and one where every write
  is refused. And two runs of the program on the listing \<^verbatim>\<open>x==1.0\<close>: with \<^verbatim>\<open>x\<close>
  declared in core and a snapshot asked for, and with a manifest whose dependencies are
  the number 5.
\<close>

definition accepting_writer :: "nat writer" where
  "accepting_writer path content w = (Inr (), w)"

definition refusing_writer :: "nat writer" where
  "refusing_writer path content w = (Inl OSError, w)"

definition core_x_manifest :: "(string \<times> toml) list" where
  "core_x_manifest = [(''project'', TTable [(''dependencies'', TArray [TString ''x''])])]"

definition snapshot_args :: args where
  "snapshot_args =
     \<lparr>freeze = [''x==1.0''], pyproject = core_x_manifest, output_path = Some ''snapshot.toml'',
      cluster = ''unknown'', version = ''unknown'', skip_transitive_check = True\<rparr>"

definition malformed_args :: args where
  "malformed_args =
     \<lparr>freeze = [''x==1.0''], pyproject = [(''project'', TTable [(''dependencies'', TOther)])],
      output_path = None, cluster = ''unknown'', version = ''unknown'',
      skip_transitive_check = True\<rparr>"

section \<open>Facts about text\<close>

lemma char_eq_code_point: "c = d \<longleftrightarrow> code_point c = code_point d"
  by (simp add: code_point_def)

lemma is_sep_code_point:
  "is_sep c \<longleftrightarrow> code_point c = 45 \<or> code_point c = 95 \<or> code_point c = 46"
proof -
  have "code_point (CHR ''-'') = 45" "code_point (CHR ''_'') = 95" "code_point (CHR ''.'') = 46"
    by (simp_all add: code_point_def)
  then show ?thesis
    unfolding is_sep_def
    using char_eq_code_point[of c "CHR ''-''"] char_eq_code_point[of c "CHR ''_''"]
      char_eq_code_point[of c "CHR ''.''"]
    by simp
qed

lemma code_point_lower_char:
  "code_point (lower_char c) = (if is_upper c then code_point c + 32 else code_point c)"
  by (auto simp: lower_char_def is_upper_def code_point_def Let_def)

lemma lower_char_not_sep: "\<not> is_sep c \<Longrightarrow> \<not> is_sep (lower_char c)"
  by (auto simp: is_sep_code_point code_point_lower_char is_upper_def Let_def)

lemma lower_char_not_upper: "\<not> is_upper (lower_char c)"
  by (auto simp: is_upper_def[of "lower_char c"] code_point_lower_char Let_def)
    (auto simp: is_upper_def Let_def)

section \<open>Normalisation\<close>

lemma collapse_seps_word:
  "\<forall>c\<in>set word. \<not> is_sep c \<Longrightarrow> collapse_seps (word @ rest) = word @ collapse_seps rest"
  by (induction word) auto

lemma collapse_seps_run:
  assumes "run \<noteq> []" and "\<forall>c\<in>set run. is_sep c" and "rest = [] \<or> \<not> is_sep (hd rest)"
  shows "collapse_seps (run @ rest) = CHR ''-'' # collapse_seps rest"
proof -
  obtain c cs where run: "run = c # cs"
    using assms(1) by (cases run) auto
  have "dropWhile is_sep (cs @ rest) = dropWhile is_sep rest"
    using assms(2) run by simp
  also have "\<dots> = rest"
    using assms(3) by (cases rest) auto
  finally show ?thesis
    using assms(2) run by simp
qed

lemma collapse_seps_chars:
  "c \<in> set (collapse_seps s) \<Longrightarrow> c = CHR ''-'' \<or> (c \<in> set s \<and> \<not> is_sep c)"
proof (induction s rule: collapse_seps.induct)
  case 1
  then show ?case by simp
next
  case (2 d ds)
  then show ?case
    by (auto split: if_splits dest: set_dropWhileD)
qed

lemma normalize_empty_iff: "normalize_package_name s = [] \<longleftrightarrow> s = []"
  by (cases s) (auto simp: normalize_package_name_def lower_def)

lemma normalize_word_run:
  assumes "\<forall>c\<in>set word. \<not> is_sep c" and "run \<noteq> []" and "\<forall>c\<in>set run. is_sep c"
    and "rest = [] \<or> \<not> is_sep (hd rest)"
  shows "normalize_package_name (word @ run @ rest)
    = lower word @ ''-'' @ normalize_package_name rest"
proof -
  have hyphen: "lower_char (CHR ''-'') = CHR ''-''"
    by code_simp
  have "collapse_seps (word @ run @ rest) = word @ CHR ''-'' # collapse_seps rest"
    using assms by (simp add: collapse_seps_word collapse_seps_run)
  then show ?thesis
    by (simp add: normalize_package_name_def lower_def hyphen)
qed

lemma normalize_word:
  assumes "\<forall>c\<in>set word. \<not> is_sep c"
  shows "normalize_package_name word = lower word"
  using collapse_seps_word[OF assms, of "[]"] by (simp add: normalize_package_name_def)

lemma normalize_chars:
  assumes "c \<in> set (normalize_package_name s)"
  shows "\<not> is_upper c \<and> c \<noteq> CHR ''_'' \<and> c \<noteq> CHR ''.''"
proof -
  obtain d where d: "d \<in> set (collapse_seps s)" and c: "c = lower_char d"
    using assms by (auto simp: normalize_package_name_def lower_def)
  have hyphen: "lower_char (CHR ''-'') = CHR ''-''"
    by code_simp
  have "d = CHR ''-'' \<or> \<not> is_sep d"
    using collapse_seps_chars[OF d] by blast
  then have "c = CHR ''-'' \<or> \<not> is_sep c"
    using c hyphen lower_char_not_sep by auto
  then have "c \<noteq> CHR ''_'' \<and> c \<noteq> CHR ''.''"
    by (auto simp: is_sep_def)
  then show ?thesis
    using c lower_char_not_upper by simp
qed

text \<open>
  Claim C8. \<^verbatim>\<open>normalize_package_name\<close> lower-cases its input and replaces every run
  of hyphens, underscores and dots by one hyphen. The three names of the specification
  all become \<^verbatim>\<open>foo-bar-baz\<close>. In general: a name that starts with a word free of
  separators, followed by a complete run of separators, becomes the lower-cased word, one
  hyphen, and the normal form of what follows the run; a word free of separators is only
  lower-cased; and no upper-case letter, underscore or dot is left in a normal form.
\<close>

theorem normalize_package_name_collapses_runs:
  "normalize_package_name ''Foo_Bar.Baz'' = ''foo-bar-baz''
   \<and> normalize_package_name ''foo-bar-baz'' = ''foo-bar-baz''
   \<and> normalize_package_name ''FOO--BAR..BAZ'' = ''foo-bar-baz''
   \<and> (\<forall>word run rest.
        (\<forall>c\<in>set word. \<not> is_sep c) \<and> run \<noteq> [] \<and> (\<forall>c\<in>set run. is_sep c)
          \<and> (rest = [] \<or> \<not> is_sep (hd rest))
        \<longrightarrow> normalize_package_name (word @ run @ rest)
            = lower word @ ''-'' @ normalize_package_name rest)
   \<and> (\<forall>word. (\<forall>c\<in>set word. \<not> is_sep c) \<longrightarrow> normalize_package_name word = lower word)
   \<and> (\<forall>name. \<forall>c\<in>set (normalize_package_name name).
        \<not> is_upper c \<and> c \<noteq> CHR ''_'' \<and> c \<noteq> CHR ''.'')"
proof (intro conjI allI impI ballI)
  show "normalize_package_name ''Foo_Bar.Baz'' = ''foo-bar-baz''"
    by code_simp
  show "normalize_package_name ''foo-bar-baz'' = ''foo-bar-baz''"
    by code_simp
  show "normalize_package_name ''FOO--BAR..BAZ'' = ''foo-bar-baz''"
    by code_simp
next
  fix word run rest
  assume "(\<forall>c\<in>set word. \<not> is_sep c) \<and> run \<noteq> [] \<and> (\<forall>c\<in>set run. is_sep c)
          \<and> (rest = [] \<or> \<not> is_sep (hd rest))"
  then show "normalize_package_name (word @ run @ rest)
            = lower word @ ''-'' @ normalize_package_name rest"
    by (intro normalize_word_run) simp_all
next
  fix word
  assume "\<forall>c\<in>set word. \<not> is_sep c"
  then show "normalize_package_name word = lower word"
    by (rule normalize_word)
next
  fix name c
  assume c: "c \<in> set (normalize_package_name name)"
  show "\<not> is_upper c" "c \<noteq> CHR ''_''" "c \<noteq> CHR ''.''"
    using normalize_chars[OF c] by simp_all
qed


theorem normalize_package_name_collapses_runs_witness:
  "list_all (\<lambda>c. \<not> is_sep c) ''Foo'' \<and> ''_.-'' \<noteq> [] \<and> list_all is_sep ''_.-''
   \<and> \<not> is_sep (hd ''Bar'')
   \<and> normalize_package_name (''Foo'' @ ''_.-'' @ ''Bar'') = ''foo-bar''
   \<and> normalize_package_name ''Bar'' = ''bar''
   \<and> list_all (\<lambda>c. \<not> is_upper c \<and> c \<noteq> CHR ''_'' \<and> c \<noteq> CHR ''.'')
        (normalize_package_name ''Foo_Bar.Baz'')"
proof -
  note parts = normalize_package_name_collapses_runs
  have hyps: "list_all (\<lambda>c. \<not> is_sep c) ''Foo''" "''_.-'' \<noteq> []" "list_all is_sep ''_.-''"
    "\<not> is_sep (hd ''Bar'')" "list_all (\<lambda>c. \<not> is_sep c) ''Bar''"
    by (simp_all add: is_sep_def)
  have low: "lower ''Foo'' = ''foo''" "lower ''Bar'' = ''bar''"
    by code_simp+
  have bar: "normalize_package_name ''Bar'' = lower ''Bar''"
    by (rule parts[THEN conjunct2, THEN conjunct2, THEN conjunct2, THEN conjunct2,
          THEN conjunct1, rule_format])
      (auto simp: is_sep_def)
  have "normalize_package_name (''Foo'' @ ''_.-'' @ ''Bar'')
      = lower ''Foo'' @ ''-'' @ normalize_package_name ''Bar''"
    by (rule parts[THEN conjunct2, THEN conjunct2, THEN conjunct2, THEN conjunct1, rule_format])
      (auto simp: is_sep_def)
  then have foo: "normalize_package_name (''Foo'' @ ''_.-'' @ ''Bar'') = ''foo-bar''"
    by (simp only: bar low append.simps)
  have "\<forall>c\<in>set (normalize_package_name ''Foo_Bar.Baz'').
          \<not> is_upper c \<and> c \<noteq> CHR ''_'' \<and> c \<noteq> CHR ''.''"
    by (rule parts[THEN conjunct2, THEN conjunct2, THEN conjunct2, THEN conjunct2,
          THEN conjunct2, rule_format, of _ "''Foo_Bar.Baz''", THEN ballI]) 
  then have chars: "list_all (\<lambda>c. \<not> is_upper c \<and> c \<noteq> CHR ''_'' \<and> c \<noteq> CHR ''.'')
        (normalize_package_name ''Foo_Bar.Baz'')"
    by (simp only: list_all_iff)
  show ?thesis
    using hyps(1-4) foo bar[unfolded low] chars by (intro conjI)
qed

section \<open>Requirement strings and listing lines\<close>

lemma is_name_char_code_point:
  "is_name_char c \<longleftrightarrow>
     (let n = code_point c in
      (97 \<le> n \<and> n \<le> 122) \<or> (65 \<le> n \<and> n \<le> 90) \<or> (48 \<le> n \<and> n \<le> 57) \<or> n = 95 \<or> n = 45)"
proof -
  have "code_point (CHR ''-'') = 45" "code_point (CHR ''_'') = 95"
    by (simp_all add: code_point_def)
  then show ?thesis
    unfolding is_name_char_def Let_def
    using char_eq_code_point[of c "CHR ''-''"] char_eq_code_point[of c "CHR ''_''"]
    by simp
qed

lemma name_char_not_space: "is_name_char c \<Longrightarrow> \<not> is_space c"
  by (auto simp: is_name_char_code_point is_space_def Let_def)

lemma name_char_not_bracket: "is_name_char c \<Longrightarrow> c \<noteq> CHR ''[''"
proof
  assume "is_name_char c" and "c = CHR ''[''"
  moreover have "code_point (CHR ''['') = 91"
    by (simp add: code_point_def)
  ultimately show False
    by (simp add: is_name_char_code_point)
qed

lemma remove_extras_plain:
  "CHR ''['' \<notin> set pre \<Longrightarrow> remove_extras (pre @ rest) = pre @ remove_extras rest"
  by (induction pre) auto

lemma close_bracket_extras:
  "CHR '']'' \<notin> set extras \<Longrightarrow> newline \<notin> set extras
    \<Longrightarrow> close_bracket (extras @ CHR '']'' # post) = Some post"
  by (induction extras) auto

lemma remove_extras_bracketed:
  assumes "CHR ''['' \<notin> set pre" and "CHR '']'' \<notin> set extras" and "newline \<notin> set extras"
  shows "remove_extras (pre @ ''['' @ extras @ '']'' @ post) = remove_extras (pre @ post)"
  using assms by (simp add: remove_extras_plain close_bracket_extras)

lemma strip_keeps_token:
  assumes "token \<noteq> []" and "\<forall>c\<in>set token. is_name_char c"
    and "rest = [] \<or> \<not> is_name_char (hd rest)"
  shows "takeWhile is_name_char (strip (token @ rest)) = token"
proof -
  have nospace: "\<forall>c\<in>set token. \<not> is_space c"
    using assms(2) name_char_not_space by blast
  obtain t ts where token: "token = t # ts"
    using assms(1) by (cases token) auto
  have front: "dropWhile is_space (token @ rest) = token @ rest"
    using nospace token by simp
  have rear: "dropWhile is_space (rev token) = rev token"
    using nospace assms(1) by (cases "rev token") auto
  show ?thesis
  proof (cases "\<forall>c\<in>set rest. is_space c")
    case True
    then have "dropWhile is_space (rev rest @ rev token) = dropWhile is_space (rev token)"
      by (intro dropWhile_append2) auto
    then have "dropWhile is_space (rev rest @ rev token) = rev token"
      by (simp only: rear)
    then have "strip (token @ rest) = token"
      by (simp add: strip_def front)
    then show ?thesis
      using assms(2) by simp
  next
    case False
    then obtain c where c: "c \<in> set (rev rest)" "\<not> is_space c"
      by auto
    define kept where "kept = rev (dropWhile is_space (rev rest))"
    have "dropWhile is_space (rev rest @ rev token) = dropWhile is_space (rev rest) @ rev token"
      using c by (rule dropWhile_append1)
    then have stripped: "strip (token @ rest) = token @ kept"
      by (simp add: strip_def front kept_def)
    have "rev rest = takeWhile is_space (rev rest) @ dropWhile is_space (rev rest)"
      by simp
    then have "rest = kept @ rev (takeWhile is_space (rev rest))"
      unfolding kept_def by (metis rev_append rev_rev_ident)
    moreover have "kept \<noteq> []"
      using c unfolding kept_def by auto
    ultimately have "hd kept = hd rest" and "rest \<noteq> []"
      by (metis hd_append2, auto)
    then have "\<not> is_name_char (hd kept)"
      using assms(3) by simp
    then have "takeWhile is_name_char kept = []"
      using \<open>kept \<noteq> []\<close> by (cases kept) auto
    then show ?thesis
      using assms(2) by (simp add: stripped)
  qed
qed

lemma parse_requirement_token:
  assumes "token \<noteq> []" and "\<forall>c\<in>set token. is_name_char c"
    and "CHR ''['' \<notin> set rest" and "rest = [] \<or> \<not> is_name_char (hd rest)"
  shows "parse_requirement (token @ rest) = normalize_package_name token"
proof -
  have "CHR ''['' \<notin> set (token @ rest)"
    using assms(2,3) name_char_not_bracket by auto
  then have "remove_extras (token @ rest) = token @ rest"
    using remove_extras_plain[of "token @ rest" "[]"] by simp
  then show ?thesis
    using strip_keeps_token[OF assms(1,2,4)] assms(1)
    by (simp add: parse_requirement_def match_name_def)
qed

lemma parse_requirement_extras:
  assumes "token \<noteq> []" and "\<forall>c\<in>set token. is_name_char c"
    and "CHR '']'' \<notin> set extras" and "newline \<notin> set extras"
    and "CHR ''['' \<notin> set rest" and "rest = [] \<or> \<not> is_name_char (hd rest)"
  shows "parse_requirement (token @ ''['' @ extras @ '']'' @ rest) = normalize_package_name token"
proof -
  have "CHR ''['' \<notin> set token"
    using assms(2) name_char_not_bracket by auto
  then have "remove_extras (token @ ''['' @ extras @ '']'' @ rest) = remove_extras (token @ rest)"
    using assms(3,4) by (rule remove_extras_bracketed)
  then show ?thesis
    using parse_requirement_token[OF assms(1,2,5,6)] by (simp add: parse_requirement_def)
qed

lemma parse_requirement_empty_iff:
  "parse_requirement req = [] \<longleftrightarrow> match_name (strip (remove_extras req)) = None"
  by (auto simp: parse_requirement_def match_name_def Let_def normalize_empty_iff
      split: option.splits)

lemma match_name_None_iff: "match_name s = None \<longleftrightarrow> s = [] \<or> \<not> is_name_char (hd s)"
  by (cases s) (auto simp: match_name_def)

lemma close_bracket_unclosed:
  "CHR '']'' \<notin> set line \<Longrightarrow> rest = [] \<or> hd rest = newline
    \<Longrightarrow> close_bracket (line @ rest) = None"
proof (induction line)
  case Nil
  then show ?case
    by (cases rest) (auto simp: newline_def)
next
  case (Cons c line)
  then show ?case by (auto simp: newline_def)
qed

lemma remove_extras_unclosed:
  assumes "CHR ''['' \<notin> set pre" and "CHR '']'' \<notin> set line"
    and "rest = [] \<or> hd rest = newline"
  shows "remove_extras (pre @ ''['' @ line @ rest) = pre @ ''['' @ remove_extras (line @ rest)"
  using assms(1) close_bracket_unclosed[OF assms(2,3)] by (simp add: remove_extras_plain)

lemma remove_extras_group:
  assumes "CHR ''['' \<notin> set pre" and "CHR '']'' \<notin> set extras" and "newline \<notin> set extras"
  shows "remove_extras (pre @ ''['' @ extras @ '']'' @ post) = pre @ remove_extras post"
  using assms by (simp add: remove_extras_plain close_bracket_extras)

lemma remove_extras_none: "CHR ''['' \<notin> set s \<Longrightarrow> remove_extras s = s"
  using remove_extras_plain[of s "[]"] by simp

lemma parse_requirement_stripped:
  assumes "strip (remove_extras req) = token @ rest" and "token \<noteq> []"
    and "\<forall>c\<in>set token. is_name_char c" and "rest = [] \<or> \<not> is_name_char (hd rest)"
  shows "parse_requirement req = normalize_package_name token"
proof -
  have "takeWhile is_name_char (token @ rest) = token"
    using assms(3,4) by (cases rest) auto
  then show ?thesis
    using assms(1,2) by (simp add: parse_requirement_def match_name_def)
qed

text \<open>
  Claim C7. \<^verbatim>\<open>parse_requirement\<close> removes every bracketed extras group, takes the
  leading token of letters, digits, underscores and hyphens of the stripped text, and
  normalises it; it returns the empty string when there is no such token. The two
  examples of the specification evaluate as stated, and so do four that show the
  brackets at work: a group inside or in front of the name is removed
  (\<^verbatim>\<open>a[b]c\<close> gives \<^verbatim>\<open>ac\<close>, \<^verbatim>\<open>[x]pkg\<close> gives \<^verbatim>\<open>pkg\<close>), an opening
  bracket that is never closed stays and ends the token. In general: the leftmost
  bracket group (free of closing brackets and line feeds) is cut out and the rest is
  treated in the same way, so that a requirement with the group parses like the one
  without it; an opening bracket with no closing bracket before the end of its line is
  kept; text without an opening bracket is left as it is. The result is the normalised
  leading token of the stripped text that remains, and it is empty exactly when that
  text is empty or starts with another character.
\<close>

theorem parse_requirement_leading_token:
  "parse_requirement ''scanpy[cuda12]>=1.10'' = ''scanpy''
   \<and> parse_requirement ''###'' = []
   \<and> parse_requirement ''a[b]c'' = ''ac''
   \<and> parse_requirement ''[x]pkg'' = ''pkg''
   \<and> parse_requirement ''a[b'' = ''a''
   \<and> parse_requirement ''[x'' = []
   \<and> (\<forall>token extras rest.
        token \<noteq> [] \<and> (\<forall>c\<in>set token. is_name_char c)
          \<and> CHR '']'' \<notin> set extras \<and> newline \<notin> set extras
          \<and> CHR ''['' \<notin> set rest \<and> (rest = [] \<or> \<not> is_name_char (hd rest))
        \<longrightarrow> parse_requirement (token @ ''['' @ extras @ '']'' @ rest)
              = normalize_package_name token
            \<and> parse_requirement (token @ rest) = normalize_package_name token)
   \<and> (\<forall>pre extras post.
        CHR ''['' \<notin> set pre \<and> CHR '']'' \<notin> set extras \<and> newline \<notin> set extras
        \<longrightarrow> remove_extras (pre @ ''['' @ extras @ '']'' @ post) = pre @ remove_extras post
            \<and> parse_requirement (pre @ ''['' @ extras @ '']'' @ post)
              = parse_requirement (pre @ post))
   \<and> (\<forall>pre line rest.
        CHR ''['' \<notin> set pre \<and> CHR '']'' \<notin> set line \<and> (rest = [] \<or> hd rest = newline)
        \<longrightarrow> remove_extras (pre @ ''['' @ line @ rest)
              = pre @ ''['' @ remove_extras (line @ rest))
   \<and> (\<forall>s. CHR ''['' \<notin> set s \<longrightarrow> remove_extras s = s)
   \<and> (\<forall>req token rest.
        strip (remove_extras req) = token @ rest \<and> token \<noteq> []
          \<and> (\<forall>c\<in>set token. is_name_char c) \<and> (rest = [] \<or> \<not> is_name_char (hd rest))
        \<longrightarrow> parse_requirement req = normalize_package_name token)
   \<and> (\<forall>req. parse_requirement req = [] \<longleftrightarrow> match_name (strip (remove_extras req)) = None)
   \<and> (\<forall>s. match_name s = None \<longleftrightarrow> s = [] \<or> \<not> is_name_char (hd s))"
proof (intro conjI allI impI)
  show "parse_requirement ''scanpy[cuda12]>=1.10'' = ''scanpy''"
    by code_simp
  show "parse_requirement ''###'' = []"
    by code_simp
  show "parse_requirement ''a[b]c'' = ''ac''"
    by code_simp
  show "parse_requirement ''[x]pkg'' = ''pkg''"
    by code_simp
  show "parse_requirement ''a[b'' = ''a''"
    by code_simp
  show "parse_requirement ''[x'' = []"
    by code_simp
next
  fix token extras rest
  assume h: "token \<noteq> [] \<and> (\<forall>c\<in>set token. is_name_char c)
          \<and> CHR '']'' \<notin> set extras \<and> newline \<notin> set extras
          \<and> CHR ''['' \<notin> set rest \<and> (rest = [] \<or> \<not> is_name_char (hd rest))"
  then show "parse_requirement (token @ ''['' @ extras @ '']'' @ rest)
              = normalize_package_name token"
    by (intro parse_requirement_extras) simp_all
  from h show "parse_requirement (token @ rest) = normalize_package_name token"
    by (intro parse_requirement_token) simp_all
next
  fix pre extras post
  assume h: "CHR ''['' \<notin> set pre \<and> CHR '']'' \<notin> set extras \<and> newline \<notin> set extras"
  then show "remove_extras (pre @ ''['' @ extras @ '']'' @ post) = pre @ remove_extras post"
    by (intro remove_extras_group) simp_all
  from h have "remove_extras (pre @ ''['' @ extras @ '']'' @ post) = remove_extras (pre @ post)"
    by (intro remove_extras_bracketed) simp_all
  then show "parse_requirement (pre @ ''['' @ extras @ '']'' @ post)
      = parse_requirement (pre @ post)"
    by (simp only: parse_requirement_def)
next
  fix pre line rest
  assume "CHR ''['' \<notin> set pre \<and> CHR '']'' \<notin> set line \<and> (rest = [] \<or> hd rest = newline)"
  then show "remove_extras (pre @ ''['' @ line @ rest)
      = pre @ ''['' @ remove_extras (line @ rest)"
    by (intro remove_extras_unclosed) simp_all
next
  fix s
  assume "CHR ''['' \<notin> set s"
  then show "remove_extras s = s"
    by (rule remove_extras_none)
next
  fix req token rest
  assume "strip (remove_extras req) = token @ rest \<and> token \<noteq> []
          \<and> (\<forall>c\<in>set token. is_name_char c) \<and> (rest = [] \<or> \<not> is_name_char (hd rest))"
  then show "parse_requirement req = normalize_package_name token"
    by (intro parse_requirement_stripped[of req token rest]) simp_all
next
  fix req
  show "parse_requirement req = [] \<longleftrightarrow> match_name (strip (remove_extras req)) = None"
    by (rule parse_requirement_empty_iff)
next
  fix s
  show "match_name s = None \<longleftrightarrow> s = [] \<or> \<not> is_name_char (hd s)"
    by (rule match_name_None_iff)
qed

theorem parse_requirement_leading_token_witness:
  "''scanpy'' \<noteq> [] \<and> list_all is_name_char ''scanpy''
   \<and> CHR '']'' \<notin> set ''cuda12'' \<and> newline \<notin> set ''cuda12''
   \<and> CHR ''['' \<notin> set ''>=1.10'' \<and> \<not> is_name_char (hd ''>=1.10'')
   \<and> parse_requirement (''scanpy'' @ ''['' @ ''cuda12'' @ '']'' @ ''>=1.10'') = ''scanpy''
   \<and> parse_requirement (''scanpy'' @ ''>=1.10'') = ''scanpy''
   \<and> CHR ''['' \<notin> set ''sc''
   \<and> remove_extras (''sc'' @ ''['' @ ''cuda12'' @ '']'' @ ''anpy[x]'') = ''scanpy''
   \<and> parse_requirement (''sc'' @ ''['' @ ''cuda12'' @ '']'' @ ''anpy[x]'') = ''scanpy''
   \<and> remove_extras (''sc'' @ ''['' @ ''cuda12'' @ []) = ''sc[cuda12''
   \<and> remove_extras ''scanpy>=1.10'' = ''scanpy>=1.10''
   \<and> strip (remove_extras ''  Foo_Bar[x] >=2 '') = ''Foo_Bar'' @ '' >=2''
   \<and> parse_requirement ''  Foo_Bar[x] >=2 '' = ''foo-bar''"
proof -
  note parts = parse_requirement_leading_token
  have token: "''scanpy'' \<noteq> []" "list_all is_name_char ''scanpy''"
    by code_simp+
  have extras: "CHR '']'' \<notin> set ''cuda12''" "newline \<notin> set ''cuda12''"
    by (simp_all add: newline_def)
  have rest: "CHR ''['' \<notin> set ''>=1.10''" "\<not> is_name_char (hd ''>=1.10'')"
    by code_simp+
  have pre: "CHR ''['' \<notin> set ''sc''"
    by simp
  have norm: "normalize_package_name ''scanpy'' = ''scanpy''"
    "normalize_package_name ''Foo_Bar'' = ''foo-bar''"
    by code_simp+
  have "parse_requirement (''scanpy'' @ ''['' @ ''cuda12'' @ '']'' @ ''>=1.10'')
          = normalize_package_name ''scanpy''
      \<and> parse_requirement (''scanpy'' @ ''>=1.10'') = normalize_package_name ''scanpy''"
    by (rule parts[THEN conjunct2, THEN conjunct2, THEN conjunct2, THEN conjunct2,
          THEN conjunct2, THEN conjunct2, THEN conjunct1, rule_format])
      (use token extras rest in \<open>simp only: list_all_iff simp_thms\<close>)
  then have first: "parse_requirement (''scanpy'' @ ''['' @ ''cuda12'' @ '']'' @ ''>=1.10'')
      = ''scanpy''"
    and second: "parse_requirement (''scanpy'' @ ''>=1.10'') = ''scanpy''"
    by (simp_all only: norm)
  have later: "remove_extras ''anpy[x]'' = ''anpy''" "parse_requirement ''scanpy[x]'' = ''scanpy''"
    by code_simp+
  have "remove_extras (''sc'' @ ''['' @ ''cuda12'' @ '']'' @ ''anpy[x]'')
          = ''sc'' @ remove_extras ''anpy[x]''
      \<and> parse_requirement (''sc'' @ ''['' @ ''cuda12'' @ '']'' @ ''anpy[x]'')
          = parse_requirement (''sc'' @ ''anpy[x]'')"
    by (rule parts[THEN conjunct2, THEN conjunct2, THEN conjunct2, THEN conjunct2,
          THEN conjunct2, THEN conjunct2, THEN conjunct2, THEN conjunct1, rule_format])
      (use pre extras in \<open>simp only: simp_thms\<close>)
  then have group: "remove_extras (''sc'' @ ''['' @ ''cuda12'' @ '']'' @ ''anpy[x]'') = ''scanpy''"
    and group': "parse_requirement (''sc'' @ ''['' @ ''cuda12'' @ '']'' @ ''anpy[x]'') = ''scanpy''"
    by (simp_all only: later append.simps)
  have plain: "remove_extras ''cuda12'' = ''cuda12''"
    by code_simp
  have "remove_extras (''sc'' @ ''['' @ ''cuda12'' @ [])
      = ''sc'' @ ''['' @ remove_extras (''cuda12'' @ [])"
    by (rule parts[THEN conjunct2, THEN conjunct2, THEN conjunct2, THEN conjunct2,
          THEN conjunct2, THEN conjunct2, THEN conjunct2, THEN conjunct2, THEN conjunct1,
          rule_format])
      (use pre extras in \<open>simp only: simp_thms\<close>)
  then have unclosed: "remove_extras (''sc'' @ ''['' @ ''cuda12'' @ []) = ''sc[cuda12''"
    by (simp only: plain append.simps append_Nil2)
  have none: "remove_extras ''scanpy>=1.10'' = ''scanpy>=1.10''"
    by (rule parts[THEN conjunct2, THEN conjunct2, THEN conjunct2, THEN conjunct2,
          THEN conjunct2, THEN conjunct2, THEN conjunct2, THEN conjunct2, THEN conjunct2,
          THEN conjunct1, rule_format])
      simp
  have stripped: "strip (remove_extras ''  Foo_Bar[x] >=2 '') = ''Foo_Bar'' @ '' >=2''"
    by code_simp
  have foo: "''Foo_Bar'' \<noteq> []" "\<forall>c\<in>set ''Foo_Bar''. is_name_char c"
    "'' >=2'' = [] \<or> \<not> is_name_char (hd '' >=2'')"
    by code_simp+
  have "parse_requirement ''  Foo_Bar[x] >=2 '' = normalize_package_name ''Foo_Bar''"
    by (rule parts[THEN conjunct2, THEN conjunct2, THEN conjunct2, THEN conjunct2,
          THEN conjunct2, THEN conjunct2, THEN conjunct2, THEN conjunct2, THEN conjunct2,
          THEN conjunct2, THEN conjunct1, rule_format, of _ "''Foo_Bar''" "'' >=2''"])
      (use stripped foo in \<open>simp only: simp_thms\<close>)
  then have leading: "parse_requirement ''  Foo_Bar[x] >=2 '' = ''foo-bar''"
    by (simp only: norm)
  show ?thesis
    using token extras rest first second pre group group' unclosed none stripped leading
    by (intro conjI)
qed

lemma contains_split_once: "contains sub s \<longleftrightarrow> split_once sub s \<noteq> None"
  by (induction s) (auto split: option.splits)

lemma split_once_parts: "split_once sub s = Some (before, after) \<Longrightarrow> s = before @ sub @ after"
proof (induction s arbitrary: before)
  case Nil
  then show ?case by (simp split: if_splits)
next
  case (Cons c cs)
  show ?case
  proof (cases "startswith (c # cs) sub")
    case True
    then have "c # cs = sub @ drop (length sub) (c # cs)"
      unfolding startswith_def by (metis append_take_drop_id)
    then show ?thesis
      using Cons.prems True by simp
  next
    case False
    then show ?thesis
      using Cons by (auto split: option.splits)
  qed
qed

lemma parse_freeze_line_skips:
  assumes "strip line = [] \<or> startswith (strip line) ''#'' \<or> startswith (strip line) ''-''
    \<or> \<not> contains ''=='' (strip line)"
  shows "parse_freeze_line line = None"
  using assms by (auto simp: parse_freeze_line_def Let_def)

lemma load_freeze_append:
  "load_freeze (earlier @ later) d = load_freeze later (load_freeze earlier d)"
  by (induction earlier arbitrary: d) (auto split: option.splits)

lemma load_freeze_other:
  "\<forall>l\<in>set lines. \<forall>v. parse_freeze_line l \<noteq> Some (name, v)
    \<Longrightarrow> map_of (load_freeze lines d) name = map_of d name"
  by (induction lines arbitrary: d) (auto simp: dict_set_def update_conv' split: option.splits)

lemma load_freeze_last_wins:
  assumes "parse_freeze_line line = Some (name, ver)"
    and "\<forall>l\<in>set later. \<forall>v. parse_freeze_line l \<noteq> Some (name, v)"
  shows "map_of (load_freeze (earlier @ line # later) d) name = Some ver"
  using assms(1) load_freeze_other[OF assms(2)]
  by (simp add: load_freeze_append dict_set_def update_conv')

lemma load_freeze_distinct:
  "distinct (map fst d) \<Longrightarrow> distinct (map fst (load_freeze lines d))"
  by (induction lines arbitrary: d) (auto simp: dict_set_def distinct_update split: option.splits)

text \<open>
  Claim C6. The five listing lines of the specification give exactly the dictionary
  \<^verbatim>\<open>{"pkga": "1.2.3", "pkgb": "2.0"}\<close>. A line that is blank, a comment, a marker
  (it starts with a hyphen, as an editable install does) or without \<^verbatim>\<open>==\<close> parses
  to nothing and leaves the dictionary as it is; the unpacking of the split never fails,
  since a line that holds \<^verbatim>\<open>==\<close> splits in two. When several lines yield the same
  normalised name, the ver of the last of them is the one stored, and every name is
  stored once.
\<close>

theorem load_freeze_listing:
  "load_freeze [''# comment'', [], ''-e ./local'', ''pkgA==1.2.3'', ''pkgB==2.0''] []
     = [(''pkga'', ''1.2.3''), (''pkgb'', ''2.0'')]
   \<and> (\<forall>line. strip line = [] \<or> startswith (strip line) ''#'' \<or> startswith (strip line) ''-''
          \<or> \<not> contains ''=='' (strip line)
        \<longrightarrow> parse_freeze_line line = None)
   \<and> (\<forall>line lines d. parse_freeze_line line = None
        \<longrightarrow> load_freeze (line # lines) d = load_freeze lines d)
   \<and> (\<forall>line. contains ''=='' line \<longrightarrow> split_once ''=='' line \<noteq> None)
   \<and> (\<forall>earlier line later name ver d.
        parse_freeze_line line = Some (name, ver)
          \<and> (\<forall>l\<in>set later. \<forall>v. parse_freeze_line l \<noteq> Some (name, v))
        \<longrightarrow> map_of (load_freeze (earlier @ line # later) d) name = Some ver)
   \<and> (\<forall>lines. distinct (map fst (load_freeze lines [])))"
proof (intro conjI allI impI)
  show "load_freeze [''# comment'', [], ''-e ./local'', ''pkgA==1.2.3'', ''pkgB==2.0''] []
     = [(''pkga'', ''1.2.3''), (''pkgb'', ''2.0'')]"
    by code_simp
next
  fix line
  assume "strip line = [] \<or> startswith (strip line) ''#'' \<or> startswith (strip line) ''-''
          \<or> \<not> contains ''=='' (strip line)"
  then show "parse_freeze_line line = None"
    by (rule parse_freeze_line_skips)
next
  fix line lines and d :: "(string, string) dict"
  assume "parse_freeze_line line = None"
  then show "load_freeze (line # lines) d = load_freeze lines d"
    by simp
next
  fix line
  assume "contains ''=='' line"
  then show "split_once ''=='' line \<noteq> None"
    by (simp add: contains_split_once)
next
  fix earlier line later name ver and d :: "(string, string) dict"
  assume "parse_freeze_line line = Some (name, ver)
          \<and> (\<forall>l\<in>set later. \<forall>v. parse_freeze_line l \<noteq> Some (name, v))"
  then show "map_of (load_freeze (earlier @ line # later) d) name = Some ver"
    using load_freeze_last_wins by blast
next
  fix lines
  show "distinct (map fst (load_freeze lines []))"
    by (rule load_freeze_distinct) simp
qed

theorem load_freeze_listing_witness:
  "startswith (strip ''  # comment'') ''#''
   \<and> parse_freeze_line ''  # comment'' = None
   \<and> load_freeze [''  # comment'', ''a==1''] [] = load_freeze [''a==1''] []
   \<and> contains ''=='' ''a==1'' \<and> split_once ''=='' ''a==1'' = Some (''a'', ''1'')
   \<and> parse_freeze_line ''PKG_A==2.0'' = Some (''pkg-a'', ''2.0'')
   \<and> parse_freeze_line ''other==3'' = Some (''other'', ''3'')
   \<and> map_of (load_freeze ([''pkg-a==1.0''] @ ''PKG_A==2.0'' # [''other==3'']) []) ''pkg-a''
       = Some ''2.0''"
proof -
  note parts = load_freeze_listing
  have comment: "startswith (strip ''  # comment'') ''#''"
    by code_simp
  have skipped: "parse_freeze_line ''  # comment'' = None"
    by (rule parts[THEN conjunct2, THEN conjunct1, rule_format]) (simp add: comment)
  have same: "load_freeze [''  # comment'', ''a==1''] [] = load_freeze [''a==1''] []"
    by (rule parts[THEN conjunct2, THEN conjunct2, THEN conjunct1, rule_format]) (rule skipped)
  have holds: "contains ''=='' ''a==1''"
    by code_simp
  have "split_once ''=='' ''a==1'' \<noteq> None"
    by (rule parts[THEN conjunct2, THEN conjunct2, THEN conjunct2, THEN conjunct1, rule_format])
      (rule holds)
  have split: "split_once ''=='' ''a==1'' = Some (''a'', ''1'')"
    by code_simp
  have line: "parse_freeze_line ''PKG_A==2.0'' = Some (''pkg-a'', ''2.0'')"
    and later: "parse_freeze_line ''other==3'' = Some (''other'', ''3'')"
    by code_simp+
  have "map_of (load_freeze ([''pkg-a==1.0''] @ ''PKG_A==2.0'' # [''other==3'']) []) ''pkg-a''
       = Some ''2.0''"
    by (rule parts[THEN conjunct2, THEN conjunct2, THEN conjunct2, THEN conjunct2,
          THEN conjunct1, rule_format])
      (simp add: line later)
  then show ?thesis
    using comment skipped same holds split line later by (intro conjI)
qed

section \<open>Classification\<close>

lemma bucket_UNIV: "(UNIV :: bucket set) = {Core, Gpu, Staged, Staged_new, Transitive}"
  using bucket.exhaust by auto

lemma keys_dict_set: "keys (dict_set k v d) = insert k (keys d)"
  by (simp add: keys_def dict_set_def dom_update)

lemma map_of_dict_set: "map_of (dict_set k v d) = (map_of d)(k \<mapsto> v)"
  by (simp add: dict_set_def update_conv')

lemma keys_empty_iff: "keys d = {} \<longleftrightarrow> d = []"
  by (simp add: keys_def)

lemma bucket_dict_assign:
  "bucket_dict b (assign b' pkg ver cats)
     = (if b = b' then dict_set pkg ver (bucket_dict b cats) else bucket_dict b cats)"
  by (cases b; cases b') (simp_all add: bucket_dict_def assign_def)

lemma bucket_dict_empty: "bucket_dict b empty_categories = []"
  by (cases b) (simp_all add: bucket_dict_def empty_categories_def)

lemma categorize_item_assign:
  "fst (categorize_item pip_show decl check_transitive (pkg, ver) (cats, w))
     = assign (item_bucket pip_show decl check_transitive pkg w) pkg ver cats"
  by (simp add: categorize_item_def item_bucket_def spec_bucket_def assign_def Let_def
      split: prod.splits)

lemma categorize_loop_append:
  "categorize_loop pip_show decl ct (xs @ ys) state
     = categorize_loop pip_show decl ct ys (categorize_loop pip_show decl ct xs state)"
  by (induction xs arbitrary: state) simp_all

lemma categorize_loop_untouched:
  "pkg \<notin> keys items \<Longrightarrow>
     map_of (bucket_dict b (fst (categorize_loop pip_show decl ct items (cats, w)))) pkg
       = map_of (bucket_dict b cats) pkg"
proof (induction items arbitrary: cats w)
  case Nil
  then show ?case by simp
next
  case (Cons item items)
  obtain p v where item: "item = (p, v)"
    by (cases item)
  obtain cats' w' where step: "categorize_item pip_show decl ct (p, v) (cats, w) = (cats', w')"
    by (cases "categorize_item pip_show decl ct (p, v) (cats, w)")
  have cats': "cats' = assign (item_bucket pip_show decl ct p w) p v cats"
    using categorize_item_assign[of pip_show decl ct p v cats w] step by simp
  have "p \<noteq> pkg" and "pkg \<notin> keys items"
    using Cons.prems item by (auto simp: keys_def)
  then show ?case
    using Cons.IH[of cats' w'] step item
    by (simp add: cats' bucket_dict_assign map_of_dict_set)
qed

lemma categorize_loop_keys:
  "(\<Union>b. keys (bucket_dict b (fst (categorize_loop pip_show decl ct items (cats, w)))))
     = (\<Union>b. keys (bucket_dict b cats)) \<union> keys items"
proof (induction items arbitrary: cats w)
  case Nil
  then show ?case by (simp add: keys_def)
next
  case (Cons item items)
  obtain p v where item: "item = (p, v)"
    by (cases item)
  obtain cats' w' where step: "categorize_item pip_show decl ct (p, v) (cats, w) = (cats', w')"
    by (cases "categorize_item pip_show decl ct (p, v) (cats, w)")
  have cats': "cats' = assign (item_bucket pip_show decl ct p w) p v cats"
    using categorize_item_assign[of pip_show decl ct p v cats w] step by simp
  have "(\<Union>b. keys (bucket_dict b cats')) = insert p (\<Union>b. keys (bucket_dict b cats))"
    by (auto simp: cats' bucket_dict_assign keys_dict_set split: if_splits)
  moreover have "keys (item # items) = insert p (keys items)"
    by (simp add: keys_def item)
  ultimately show ?case
    using Cons.IH[of cats' w'] step item by simp
qed

lemma categorize_loop_disjoint:
  assumes "disjoint_buckets cats" and "distinct (map fst items)"
    and "keys items \<inter> (\<Union>b. keys (bucket_dict b cats)) = {}"
  shows "disjoint_buckets (fst (categorize_loop pip_show decl ct items (cats, w)))"
  using assms
proof (induction items arbitrary: cats w)
  case Nil
  then show ?case by simp
next
  case (Cons item items)
  obtain p v where item: "item = (p, v)"
    by (cases item)
  obtain cats' w' where step: "categorize_item pip_show decl ct (p, v) (cats, w) = (cats', w')"
    by (cases "categorize_item pip_show decl ct (p, v) (cats, w)")
  have cats': "cats' = assign (item_bucket pip_show decl ct p w) p v cats"
    using categorize_item_assign[of pip_show decl ct p v cats w] step by simp
  have fresh: "\<forall>b. p \<notin> keys (bucket_dict b cats)"
    using Cons.prems(3) item by (auto simp: keys_def)
  have union: "(\<Union>b. keys (bucket_dict b cats')) = insert p (\<Union>b. keys (bucket_dict b cats))"
    by (auto simp: cats' bucket_dict_assign keys_dict_set split: if_splits)
  have "disjoint_buckets cats'"
    using Cons.prems(1) fresh
    unfolding disjoint_buckets_def cats' bucket_dict_assign
    by (auto simp: keys_dict_set)
  moreover have "distinct (map fst items)"
    using Cons.prems(2) by simp
  moreover have "keys items \<inter> (\<Union>b. keys (bucket_dict b cats')) = {}"
    using Cons.prems(2,3) item unfolding union by (auto simp: keys_def)
  ultimately show ?case
    using Cons.IH[of cats' w'] step item by simp
qed

lemma categorize_packages_disjoint:
  assumes "distinct (map fst installed)"
  shows "disjoint_buckets (fst (categorize_packages pip_show installed decl ct w))"
  unfolding categorize_packages_def
  by (rule categorize_loop_disjoint)
    (simp_all add: assms disjoint_buckets_def bucket_dict_empty keys_def)

lemma categorize_packages_keys:
  "(\<Union>b. keys (bucket_dict b (fst (categorize_packages pip_show installed decl ct w))))
     = keys installed"
  unfolding categorize_packages_def categorize_loop_keys
  by (simp add: bucket_dict_empty keys_def)

text \<open>
  Claim C1. For every dictionary of installed packages (an association list with
  distinct keys), every three declared sets, either setting of the transitive check and
  every behaviour of the reverse-dependency query (any function \<open>pip_show\<close> on any
  type of worlds, from any world), the five buckets returned by
  \<^verbatim>\<open>categorize_packages\<close> are pairwise disjoint and the union of their key sets is
  the key set of the installed dictionary.
\<close>

theorem categorize_packages_partition:
  assumes "distinct (map fst installed)"
    and "categorize_packages pip_show installed decl check_transitive w = (cats, w')"
  shows "keys (cat_core cats) \<inter> keys (cat_gpu cats) = {}
    \<and> keys (cat_core cats) \<inter> keys (cat_staged cats) = {}
    \<and> keys (cat_core cats) \<inter> keys (cat_staged_new cats) = {}
    \<and> keys (cat_core cats) \<inter> keys (cat_transitive cats) = {}
    \<and> keys (cat_gpu cats) \<inter> keys (cat_staged cats) = {}
    \<and> keys (cat_gpu cats) \<inter> keys (cat_staged_new cats) = {}
    \<and> keys (cat_gpu cats) \<inter> keys (cat_transitive cats) = {}
    \<and> keys (cat_staged cats) \<inter> keys (cat_staged_new cats) = {}
    \<and> keys (cat_staged cats) \<inter> keys (cat_transitive cats) = {}
    \<and> keys (cat_staged_new cats) \<inter> keys (cat_transitive cats) = {}
    \<and> keys (cat_core cats) \<union> keys (cat_gpu cats) \<union> keys (cat_staged cats)
        \<union> keys (cat_staged_new cats) \<union> keys (cat_transitive cats) = keys installed"
proof -
  have cats: "cats = fst (categorize_packages pip_show installed decl check_transitive w)"
    using assms(2) by simp
  have disj: "b \<noteq> b' \<Longrightarrow> keys (bucket_dict b cats) \<inter> keys (bucket_dict b' cats) = {}" for b b'
    using categorize_packages_disjoint[OF assms(1), of pip_show decl check_transitive w]
    unfolding cats disjoint_buckets_def by blast
  have "(\<Union>b. keys (bucket_dict b cats)) = keys installed"
    unfolding cats by (rule categorize_packages_keys)
  then have union: "keys (cat_core cats) \<union> keys (cat_gpu cats) \<union> keys (cat_staged cats)
        \<union> keys (cat_staged_new cats) \<union> keys (cat_transitive cats) = keys installed"
    unfolding bucket_UNIV by (simp add: bucket_dict_def Un_assoc)
  show ?thesis
    using disj[of Core Gpu] disj[of Core Staged] disj[of Core Staged_new]
      disj[of Core Transitive] disj[of Gpu Staged] disj[of Gpu Staged_new]
      disj[of Gpu Transitive] disj[of Staged Staged_new] disj[of Staged Transitive]
      disj[of Staged_new Transitive] union
    by (simp add: bucket_dict_def)
qed

theorem categorize_packages_partition_witness:
  "distinct (map fst example_installed)
   \<and> categorize_packages example_pip example_installed example_declared True 0
       = (example_categories, 2)
   \<and> keys (cat_core example_categories) \<inter> keys (cat_gpu example_categories) = {}
   \<and> keys (cat_staged_new example_categories) \<inter> keys (cat_transitive example_categories) = {}
   \<and> keys (cat_core example_categories) \<union> keys (cat_gpu example_categories)
       \<union> keys (cat_staged example_categories) \<union> keys (cat_staged_new example_categories)
       \<union> keys (cat_transitive example_categories) = keys example_installed"
proof -
  have dict: "distinct (map fst example_installed)"
    by code_simp
  have run: "categorize_packages example_pip example_installed example_declared True 0
       = (example_categories, 2)"
    by code_simp
  note partition = categorize_packages_partition[OF dict run]
  show ?thesis
    using dict run partition by simp
qed

lemma categorize_packages_at:
  assumes "distinct (map fst installed)" and "installed = before @ (pkg, ver) # after"
    and "categorize_packages pip_show before decl ct w = (cats_before, w1)"
    and "categorize_packages pip_show installed decl ct w = (cats, w')"
  shows "map_of (bucket_dict b cats) pkg
    = (if b = item_bucket pip_show decl ct pkg w1 then Some ver else None)"
proof -
  have "pkg \<notin> keys before" and later: "pkg \<notin> keys after"
    using assms(1,2) by (auto simp: keys_def)
  then have "map_of (bucket_dict b cats_before) pkg = map_of (bucket_dict b empty_categories) pkg"
    using categorize_loop_untouched[of pkg before b pip_show decl ct empty_categories w] assms(3)
    by (simp add: categorize_packages_def)
  then have fresh: "map_of (bucket_dict b cats_before) pkg = None"
    by (simp add: bucket_dict_empty)
  obtain cats_at w2 where
    step: "categorize_item pip_show decl ct (pkg, ver) (cats_before, w1) = (cats_at, w2)"
    by (cases "categorize_item pip_show decl ct (pkg, ver) (cats_before, w1)")
  have cats_at: "cats_at = assign (item_bucket pip_show decl ct pkg w1) pkg ver cats_before"
    using categorize_item_assign[of pip_show decl ct pkg ver cats_before w1] step by simp
  have "categorize_loop pip_show decl ct installed (empty_categories, w)
      = categorize_loop pip_show decl ct after (cats_at, w2)"
    using assms(3) step by (simp add: assms(2) categorize_loop_append categorize_packages_def)
  then have "cats = fst (categorize_loop pip_show decl ct after (cats_at, w2))"
    using assms(4) by (simp add: categorize_packages_def)
  then have "map_of (bucket_dict b cats) pkg = map_of (bucket_dict b cats_at) pkg"
    using categorize_loop_untouched[OF later] by simp
  then show ?thesis
    using fresh by (simp add: cats_at bucket_dict_assign map_of_dict_set)
qed

text \<open>
  Claim C2. \<^verbatim>\<open>categorize_packages\<close> puts each installed package into the bucket of
  the first rule that matches, in the order core, gpu, staged, transitive, staged_new:
  the package is stored with its version in the bucket \<open>spec_bucket\<close> names for its
  normalised name, where "the query reports a dependent" is read in the world \<open>w1\<close>
  the loop has reached when it comes to the package, and it is in no other bucket. In
  particular a package declared in both core and staged is stored under core and not
  under staged.
\<close>

theorem categorize_packages_priority:
  assumes "distinct (map fst installed)" and "installed = before @ (pkg, ver) # after"
    and "categorize_packages pip_show before decl check_transitive w = (cats_before, w1)"
    and "categorize_packages pip_show installed decl check_transitive w = (cats, w')"
  shows "map_of (bucket_dict
            (spec_bucket decl check_transitive (fst (get_required_by pip_show pkg w1) \<noteq> [])
               (normalize_package_name pkg)) cats) pkg = Some ver
    \<and> (\<forall>b. b \<noteq> spec_bucket decl check_transitive (fst (get_required_by pip_show pkg w1) \<noteq> [])
                 (normalize_package_name pkg)
          \<longrightarrow> pkg \<notin> keys (bucket_dict b cats))
    \<and> (normalize_package_name pkg \<in> core decl \<and> normalize_package_name pkg \<in> staged decl
          \<longrightarrow> map_of (cat_core cats) pkg = Some ver \<and> pkg \<notin> keys (cat_staged cats))"
proof -
  note at = categorize_packages_at[OF assms, unfolded item_bucket_def]
  have absent: "pkg \<notin> keys d \<longleftrightarrow> map_of d pkg = None" for d :: "(string, string) dict"
    by (simp add: keys_def map_of_eq_None_iff)
  have "map_of (cat_core cats) pkg = Some ver \<and> pkg \<notin> keys (cat_staged cats)"
    if "normalize_package_name pkg \<in> core decl"
    using at[of Core] at[of Staged] that
    by (simp add: absent spec_bucket_def bucket_dict_def)
  then show ?thesis
    using at by (simp add: absent)
qed

theorem categorize_packages_priority_witness:
  "distinct (map fst [(''a'', ''1''), (''Foo_Bar'', ''2''), (''c'', ''3'')])
   \<and> categorize_packages example_pip [(''a'', ''1'')]
        \<lparr>core = {''foo-bar''}, gpu = {}, staged = {''foo-bar''}\<rparr> True 0
       = (\<lparr>cat_core = [], cat_gpu = [], cat_staged = [], cat_staged_new = [],
           cat_transitive = [(''a'', ''1'')]\<rparr>, 1)
   \<and> categorize_packages example_pip [(''a'', ''1''), (''Foo_Bar'', ''2''), (''c'', ''3'')]
        \<lparr>core = {''foo-bar''}, gpu = {}, staged = {''foo-bar''}\<rparr> True 0
       = (\<lparr>cat_core = [(''Foo_Bar'', ''2'')], cat_gpu = [], cat_staged = [],
           cat_staged_new = [(''c'', ''3'')], cat_transitive = [(''a'', ''1'')]\<rparr>, 2)
   \<and> normalize_package_name ''Foo_Bar'' \<in> core \<lparr>core = {''foo-bar''}, gpu = {}, staged = {''foo-bar''}\<rparr>
   \<and> normalize_package_name ''Foo_Bar'' \<in> staged \<lparr>core = {''foo-bar''}, gpu = {}, staged = {''foo-bar''}\<rparr>
   \<and> map_of [(''Foo_Bar'', ''2'')] ''Foo_Bar'' = Some ''2''
   \<and> ''Foo_Bar'' \<notin> keys ([] :: (string, string) dict)"
proof -
  let ?decl = "\<lparr>core = {''foo-bar''}, gpu = {}, staged = {''foo-bar''}\<rparr>"
  let ?cats = "\<lparr>cat_core = [(''Foo_Bar'', ''2'')], cat_gpu = [], cat_staged = [],
           cat_staged_new = [(''c'', ''3'')], cat_transitive = [(''a'', ''1'')]\<rparr>"
  have dict: "distinct (map fst [(''a'', ''1''), (''Foo_Bar'', ''2''), (''c'', ''3'')])"
    by code_simp
  have split: "[(''a'', ''1''), (''Foo_Bar'', ''2''), (''c'', ''3'')]
      = [(''a'', ''1'')] @ (''Foo_Bar'', ''2'') # [(''c'', ''3'')]"
    by simp
  have reach: "categorize_packages example_pip [(''a'', ''1'')] ?decl True 0
       = (\<lparr>cat_core = [], cat_gpu = [], cat_staged = [], cat_staged_new = [],
           cat_transitive = [(''a'', ''1'')]\<rparr>, 1)"
    by code_simp
  have run: "categorize_packages example_pip [(''a'', ''1''), (''Foo_Bar'', ''2''), (''c'', ''3'')]
        ?decl True 0 = (?cats, 2)"
    by code_simp
  have declared: "normalize_package_name ''Foo_Bar'' \<in> core ?decl"
    "normalize_package_name ''Foo_Bar'' \<in> staged ?decl"
    by code_simp+
  have "map_of (cat_core ?cats) ''Foo_Bar'' = Some ''2'' \<and> ''Foo_Bar'' \<notin> keys (cat_staged ?cats)"
    by (rule categorize_packages_priority[OF dict split reach run,
          THEN conjunct2, THEN conjunct2, THEN mp])
      (intro conjI declared)
  then show ?thesis
    using dict reach run declared by simp
qed

section \<open>Queries whose answer depends on the package only\<close>

lemma categorize_loop_keys_by_package:
  assumes "\<forall>p u. (fst (get_required_by pip_show p u) \<noteq> []) = dep p"
  shows "keys (bucket_dict b (fst (categorize_loop pip_show decl ct items (cats, w))))
    = keys (bucket_dict b cats)
      \<union> {p \<in> keys items. spec_bucket decl ct (dep p) (normalize_package_name p) = b}"
proof (induction items arbitrary: cats w)
  case Nil
  then show ?case by (simp add: keys_def)
next
  case (Cons item items)
  obtain p v where item: "item = (p, v)"
    by (cases item)
  obtain cats' w' where step: "categorize_item pip_show decl ct (p, v) (cats, w) = (cats', w')"
    by (cases "categorize_item pip_show decl ct (p, v) (cats, w)")
  have "item_bucket pip_show decl ct p w = spec_bucket decl ct (dep p) (normalize_package_name p)"
    using assms by (simp add: item_bucket_def)
  then have cats': "cats' = assign (spec_bucket decl ct (dep p) (normalize_package_name p)) p v cats"
    using categorize_item_assign[of pip_show decl ct p v cats w] step by simp
  have "keys (item # items) = insert p (keys items)"
    by (simp add: keys_def item)
  then show ?case
    using Cons.IH[of cats' w'] step item
    by (auto simp: cats' bucket_dict_assign keys_dict_set)
qed

lemma categorize_packages_keys_by_package:
  assumes "\<forall>p u. (fst (get_required_by pip_show p u) \<noteq> []) = dep p"
  shows "keys (bucket_dict b (fst (categorize_packages pip_show installed decl ct w)))
    = {p \<in> keys installed. spec_bucket decl ct (dep p) (normalize_package_name p) = b}"
  unfolding categorize_packages_def categorize_loop_keys_by_package[OF assms]
  by (simp add: bucket_dict_empty keys_def)

section \<open>Failed queries\<close>

lemma scan_output_no_line:
  "\<not> list_ex (\<lambda>line. startswith line ''Required-by:'') lines \<Longrightarrow> scan_output lines = []"
  by (induction lines) auto

lemma required_by_of_failed: "query_failed result \<Longrightarrow> required_by_of result = []"
  by (auto simp: query_failed_def required_by_of_def scan_output_no_line split: sum.splits)

lemma get_required_by_eq:
  "get_required_by pip_show package u
     = (required_by_of (fst (pip_show package u)), snd (pip_show package u))"
  by (simp add: get_required_by_def split: prod.splits)

text \<open>
  Claim C4. A failed reverse-dependency query (the timeout, any other exception, a
  return code other than zero, or an output with no \<^verbatim>\<open>Required-by:\<close> line) gives
  the empty list of dependents, and \<^verbatim>\<open>get_required_by\<close> returns it as an ordinary
  value. Hence, when the query fails for every package in every world, the transitive
  bucket is empty and every installed package whose normalised name is in none of the
  declared sets is in the staged_new bucket.
\<close>

theorem failed_query_means_no_dependents:
  "(\<forall>result. query_failed result \<longrightarrow> required_by_of result = [])
   \<and> required_by_of (Inl TimeoutExpired) = []
   \<and> required_by_of (Inl OtherException) = []
   \<and> (\<forall>rc out. rc \<noteq> 0 \<longrightarrow> required_by_of (Inr \<lparr>returncode = rc, stdout = out\<rparr>) = [])
   \<and> (\<forall>package u. query_failed (fst (pip_show package u))
        \<longrightarrow> get_required_by pip_show package u = ([], snd (pip_show package u)))
   \<and> ((\<forall>package u. query_failed (fst (pip_show package u)))
        \<longrightarrow> cat_transitive (fst (categorize_packages pip_show installed decl check_transitive w)) = []
          \<and> (\<forall>pkg\<in>keys installed.
                normalize_package_name pkg \<notin> core decl \<union> gpu decl \<union> staged decl
                \<longrightarrow> pkg \<in> keys (cat_staged_new
                      (fst (categorize_packages pip_show installed decl check_transitive w)))))"
proof (intro conjI allI impI ballI)
  fix result
  assume "query_failed result"
  then show "required_by_of result = []"
    by (rule required_by_of_failed)
next
  show "required_by_of (Inl TimeoutExpired) = []" "required_by_of (Inl OtherException) = []"
    by (simp_all add: required_by_of_def)
next
  fix rc :: int and out
  assume "rc \<noteq> 0"
  then show "required_by_of (Inr \<lparr>returncode = rc, stdout = out\<rparr>) = []"
    by (simp add: required_by_of_def)
next
  fix package u
  assume "query_failed (fst (pip_show package u))"
  then show "get_required_by pip_show package u = ([], snd (pip_show package u))"
    by (simp add: get_required_by_eq required_by_of_failed)
next
  assume failing: "\<forall>package u. query_failed (fst (pip_show package u))"
  then have none: "\<forall>p u. (fst (get_required_by pip_show p u) \<noteq> []) = False"
    by (simp add: get_required_by_eq required_by_of_failed)
  note by_package = categorize_packages_keys_by_package[OF none, of _ installed decl check_transitive w]
  have "keys (cat_transitive (fst (categorize_packages pip_show installed decl check_transitive w)))
      = {}"
    using by_package[of Transitive] by (auto simp: bucket_dict_def spec_bucket_def)
  then show "cat_transitive (fst (categorize_packages pip_show installed decl check_transitive w)) = []"
    by (simp add: keys_empty_iff)
  fix pkg
  assume "pkg \<in> keys installed"
    and "normalize_package_name pkg \<notin> core decl \<union> gpu decl \<union> staged decl"
  then show "pkg \<in> keys (cat_staged_new
      (fst (categorize_packages pip_show installed decl check_transitive w)))"
    using by_package[of Staged_new] by (auto simp: bucket_dict_def spec_bucket_def)
qed

theorem failed_query_means_no_dependents_witness:
  "query_failed (Inr \<lparr>returncode = 1, stdout = ''Required-by: pandas''\<rparr>)
   \<and> required_by_of (Inr \<lparr>returncode = 1, stdout = ''Required-by: pandas''\<rparr>) = []
   \<and> get_required_by failing_pip ''six'' 3 = ([], 4)
   \<and> (\<forall>package u. query_failed (fst (failing_pip package u)))
   \<and> cat_transitive (fst (categorize_packages failing_pip example_installed example_declared True 0))
       = []
   \<and> ''six'' \<in> keys example_installed
   \<and> normalize_package_name ''six''
       \<notin> core example_declared \<union> gpu example_declared \<union> staged example_declared
   \<and> ''six'' \<in> keys (cat_staged_new
         (fst (categorize_packages failing_pip example_installed example_declared True 0)))"
proof -
  note parts = failed_query_means_no_dependents[of failing_pip example_installed example_declared
      True 0]
  have quiet: "\<not> list_ex (\<lambda>line. startswith line ''Required-by:'')
      (split_char newline ''WARNING: Package(s) not found'')"
    by code_simp
  have failing: "\<forall>package u. query_failed (fst (failing_pip package u))"
    using quiet by (simp add: failing_pip_def query_failed_def)
  have nonzero: "query_failed (Inr \<lparr>returncode = 1, stdout = ''Required-by: pandas''\<rparr>)"
    by (simp add: query_failed_def)
  have empty: "required_by_of (Inr \<lparr>returncode = 1, stdout = ''Required-by: pandas''\<rparr>) = []"
    by (rule parts[THEN conjunct1, rule_format]) (rule nonzero)
  have "get_required_by failing_pip ''six'' 3 = ([], snd (failing_pip ''six'' 3))"
    by (rule parts[THEN conjunct2, THEN conjunct2, THEN conjunct2, THEN conjunct2,
          THEN conjunct1, rule_format])
      (rule failing[rule_format])
  then have query: "get_required_by failing_pip ''six'' 3 = ([], 4)"
    by (simp add: failing_pip_def)
  have installed: "''six'' \<in> keys example_installed"
    by (simp add: keys_def example_installed_def)
  have norm: "normalize_package_name ''six'' = ''six''"
    by code_simp
  have undeclared: "normalize_package_name ''six''
       \<notin> core example_declared \<union> gpu example_declared \<union> staged example_declared"
    unfolding norm by (simp add: example_declared_def)
  note run = parts[THEN conjunct2, THEN conjunct2, THEN conjunct2, THEN conjunct2,
      THEN conjunct2, THEN mp, OF failing]
  have "''six'' \<in> keys (cat_staged_new
         (fst (categorize_packages failing_pip example_installed example_declared True 0)))"
    by (rule run[THEN conjunct2, rule_format]) (rule installed, rule undeclared)
  then show ?thesis
    using nonzero empty query failing run[THEN conjunct1] installed undeclared
    by (intro conjI)
qed

section \<open>Versions and classification\<close>

lemma map_fst_dict_set:
  "map fst (dict_set k v d) = (if k \<in> keys d then map fst d else map fst d @ [k])"
  by (induction d) (auto simp: dict_set_def keys_def)

lemma categorize_item_world:
  "snd (categorize_item pip_show decl ct (pkg, ver) (cats, w))
     = snd (categorize_item pip_show decl ct (pkg, ver') (cats', w))"
  by (simp add: categorize_item_def Let_def split: prod.splits)

lemma categorize_loop_same_names:
  assumes "map fst items = map fst items'"
    and "\<forall>b. map fst (bucket_dict b cats) = map fst (bucket_dict b cats')"
  shows "snd (categorize_loop pip_show decl ct items (cats, w))
      = snd (categorize_loop pip_show decl ct items' (cats', w))
    \<and> (\<forall>b. map fst (bucket_dict b (fst (categorize_loop pip_show decl ct items (cats, w))))
           = map fst (bucket_dict b (fst (categorize_loop pip_show decl ct items' (cats', w)))))"
  using assms
proof (induction items arbitrary: items' cats cats' w)
  case Nil
  then show ?case by simp
next
  case (Cons item items)
  obtain p v where item: "item = (p, v)"
    by (cases item)
  obtain v' rest where items': "items' = (p, v') # rest" and rest: "map fst items = map fst rest"
    using Cons.prems(1) item by (cases items') auto
  obtain c1 w1 where step: "categorize_item pip_show decl ct (p, v) (cats, w) = (c1, w1)"
    by (cases "categorize_item pip_show decl ct (p, v) (cats, w)")
  obtain c2 w2 where step': "categorize_item pip_show decl ct (p, v') (cats', w) = (c2, w2)"
    by (cases "categorize_item pip_show decl ct (p, v') (cats', w)")
  have world: "w2 = w1"
    using categorize_item_world[of pip_show decl ct p v cats w v' cats'] step step' by simp
  have c1: "c1 = assign (item_bucket pip_show decl ct p w) p v cats"
    using categorize_item_assign[of pip_show decl ct p v cats w] step by simp
  have c2: "c2 = assign (item_bucket pip_show decl ct p w) p v' cats'"
    using categorize_item_assign[of pip_show decl ct p v' cats' w] step' by simp
  have keys_eq: "keys (bucket_dict b cats) = keys (bucket_dict b cats')" for b
    using Cons.prems(2) by (metis keys_def list.set_map)
  have "\<forall>b. map fst (bucket_dict b c1) = map fst (bucket_dict b c2)"
    using Cons.prems(2) keys_eq by (simp add: c1 c2 bucket_dict_assign map_fst_dict_set)
  then show ?case
    using Cons.IH[OF rest, of c1 c2 w1] step step' item items' world by simp
qed

text \<open>
  Claim C10. The classification does not depend on the version strings. Two installed
  dictionaries with the same names in the same order, classified against the same
  declared sets with the same query from the same world, leave the world in the same
  state and give every bucket the same names in the same order. When the answers of the
  query depend on the package only, two dictionaries with the same key set give every
  bucket the same key set, in whatever order their items come and from whatever worlds
  the two runs start.
\<close>

theorem categorize_packages_ignores_versions:
  "(map fst installed = map fst installed'
      \<longrightarrow> snd (categorize_packages pip_show installed decl check_transitive w)
            = snd (categorize_packages pip_show installed' decl check_transitive w)
          \<and> (\<forall>b. map fst (bucket_dict b
                      (fst (categorize_packages pip_show installed decl check_transitive w)))
                 = map fst (bucket_dict b
                      (fst (categorize_packages pip_show installed' decl check_transitive w)))))
   \<and> ((\<forall>package u u'. fst (pip_show package u) = fst (pip_show package u'))
        \<and> keys installed = keys installed'
      \<longrightarrow> (\<forall>b. keys (bucket_dict b
                      (fst (categorize_packages pip_show installed decl check_transitive w)))
                 = keys (bucket_dict b
                      (fst (categorize_packages pip_show installed' decl check_transitive w')))))"
proof (rule conjI)
  have same_order: "snd (categorize_packages pip_show installed decl check_transitive w)
            = snd (categorize_packages pip_show installed' decl check_transitive w)
          \<and> (\<forall>b. map fst (bucket_dict b
                      (fst (categorize_packages pip_show installed decl check_transitive w)))
                 = map fst (bucket_dict b
                      (fst (categorize_packages pip_show installed' decl check_transitive w))))"
    if "map fst installed = map fst installed'"
    unfolding categorize_packages_def
    using that by (rule categorize_loop_same_names) simp
  then show "map fst installed = map fst installed'
      \<longrightarrow> snd (categorize_packages pip_show installed decl check_transitive w)
            = snd (categorize_packages pip_show installed' decl check_transitive w)
          \<and> (\<forall>b. map fst (bucket_dict b
                      (fst (categorize_packages pip_show installed decl check_transitive w)))
                 = map fst (bucket_dict b
                      (fst (categorize_packages pip_show installed' decl check_transitive w))))"
    by (rule impI)
next
  have same_keys: "\<forall>b. keys (bucket_dict b
                      (fst (categorize_packages pip_show installed decl check_transitive w)))
                 = keys (bucket_dict b
                      (fst (categorize_packages pip_show installed' decl check_transitive w')))"
    if h: "(\<forall>package u u'. fst (pip_show package u) = fst (pip_show package u'))
        \<and> keys installed = keys installed'"
  proof -
    define dep where "dep p = (fst (get_required_by pip_show p w) \<noteq> [])" for p
    have "\<forall>p u. (fst (get_required_by pip_show p u) \<noteq> []) = dep p"
      using h unfolding dep_def get_required_by_eq by (metis fst_conv)
    note by_package = categorize_packages_keys_by_package[OF this]
    show ?thesis
      using h by (simp add: by_package)
  qed
  then show "(\<forall>package u u'. fst (pip_show package u) = fst (pip_show package u'))
        \<and> keys installed = keys installed'
      \<longrightarrow> (\<forall>b. keys (bucket_dict b
                      (fst (categorize_packages pip_show installed decl check_transitive w)))
                 = keys (bucket_dict b
                      (fst (categorize_packages pip_show installed' decl check_transitive w'))))"
    by (rule impI)
qed

theorem categorize_packages_ignores_versions_witness:
  "map fst example_installed = map fst example_upgraded
   \<and> snd (categorize_packages example_pip example_installed example_declared True 0)
       = snd (categorize_packages example_pip example_upgraded example_declared True 0)
   \<and> (\<forall>b. map fst (bucket_dict b
               (fst (categorize_packages example_pip example_installed example_declared True 0)))
          = map fst (bucket_dict b
               (fst (categorize_packages example_pip example_upgraded example_declared True 0))))
   \<and> (\<forall>package u u'. fst (static_pip package u) = fst (static_pip package u'))
   \<and> keys example_installed = keys (rev example_upgraded)
   \<and> (\<forall>b. keys (bucket_dict b
               (fst (categorize_packages static_pip example_installed example_declared True 0)))
          = keys (bucket_dict b
               (fst (categorize_packages static_pip (rev example_upgraded) example_declared
                      True 5))))"
proof -
  have names: "map fst example_installed = map fst example_upgraded"
    by (simp add: example_installed_def example_upgraded_def)
  have static: "\<forall>package u u'. fst (static_pip package u) = fst (static_pip package u')"
    by (simp add: static_pip_def)
  have same_keys: "keys example_installed = keys (rev example_upgraded)"
    using names by (simp add: keys_def flip: set_map)
  note ordered = categorize_packages_ignores_versions[of example_installed example_upgraded
      example_pip example_declared True 0, THEN conjunct1, THEN mp, OF names]
  note unordered = categorize_packages_ignores_versions[of example_installed
      "rev example_upgraded" static_pip example_declared True 0 5, THEN conjunct2, THEN mp,
      OF conjI, OF static same_keys]
  show ?thesis
    using names ordered[THEN conjunct1] ordered[THEN conjunct2] static same_keys unordered
    by (intro conjI)
qed

section \<open>The exit status\<close>

lemma main_manifest_error:
  "get_declared_packages (pyproject a) = Inl e \<Longrightarrow> main pip_show write_text now a w = (Inl e, w)"
  by (simp add: main_def)

lemma main_no_output:
  assumes "get_declared_packages (pyproject a) = Inr decl" and "output_path a = None"
  shows "main pip_show write_text now a w
    = (Inr \<lparr>sorted_into = fst (categorize_packages pip_show (load_freeze (freeze a) []) decl
                (\<not> skip_transitive_check a) w),
            written = None,
            status = exit_status (fst (categorize_packages pip_show (load_freeze (freeze a) [])
                decl (\<not> skip_transitive_check a) w))\<rparr>,
       snd (categorize_packages pip_show (load_freeze (freeze a) []) decl
                (\<not> skip_transitive_check a) w))"
  using assms by (simp add: main_def Let_def split: prod.splits)

lemma main_write_error:
  assumes "get_declared_packages (pyproject a) = Inr decl" and "output_path a = Some path"
    and "fst (write_text path
           (generate_snapshot (load_freeze (freeze a) []) (cluster a) (version a) now)
           (snd (categorize_packages pip_show (load_freeze (freeze a) []) decl
                (\<not> skip_transitive_check a) w))) = Inl e"
  shows "fst (main pip_show write_text now a w) = Inl e"
  using assms by (auto simp: main_def Let_def split: prod.splits sum.splits)

lemma main_written:
  assumes "get_declared_packages (pyproject a) = Inr decl" and "output_path a = Some path"
    and "fst (write_text path
           (generate_snapshot (load_freeze (freeze a) []) (cluster a) (version a) now)
           (snd (categorize_packages pip_show (load_freeze (freeze a) []) decl
                (\<not> skip_transitive_check a) w))) = Inr ()"
  shows "\<exists>out w'. main pip_show write_text now a w = (Inr out, w')
    \<and> written out = Some (path,
         generate_snapshot (load_freeze (freeze a) []) (cluster a) (version a) now)"
  using assms by (auto simp: main_def Let_def split: prod.splits sum.splits)

lemma main_completed:
  assumes "main pip_show write_text now a w = (Inr out, w')"
  shows "status out = exit_status (sorted_into out)
    \<and> (\<exists>decl. get_declared_packages (pyproject a) = Inr decl
          \<and> sorted_into out = fst (categorize_packages pip_show (load_freeze (freeze a) []) decl
                (\<not> skip_transitive_check a) w))"
  using assms
  by (auto simp: main_def Let_def split: sum.splits prod.splits option.splits)

lemma categorize_single:
  "categorize_packages pip_show [(pkg, ver)] decl ct w
     = categorize_item pip_show decl ct (pkg, ver) (empty_categories, w)"
  by (simp add: categorize_packages_def)

lemma single_undeclared_skipped:
  "categorize_packages pip_show [(''x'', ''1.0'')] \<lparr>core = {}, gpu = {}, staged = {}\<rparr> False w
     = (empty_categories\<lparr>cat_staged_new := [(''x'', ''1.0'')]\<rparr>, w)"
  by (simp add: categorize_single categorize_item_def dict_set_def empty_categories_def)

lemma single_core:
  "categorize_packages pip_show [(''x'', ''1.0'')] \<lparr>core = {''x''}, gpu = {}, staged = {}\<rparr> ct w
     = (empty_categories\<lparr>cat_core := [(''x'', ''1.0'')]\<rparr>, w)"
proof -
  have "normalize_package_name ''x'' = ''x''"
    by code_simp
  then show ?thesis
    by (simp add: categorize_single categorize_item_def dict_set_def empty_categories_def)
qed

lemma declared_empty:
  "get_declared_packages [] = Inr \<lparr>core = {}, gpu = {}, staged = {}\<rparr>"
  by (simp add: get_declared_packages_def dict_get_def collect_def iterate_def)

lemma declared_core_x:
  "get_declared_packages core_x_manifest = Inr \<lparr>core = {''x''}, gpu = {}, staged = {}\<rparr>"
proof -
  have "parse_requirement ''x'' = ''x''"
    by code_simp
  then show ?thesis
    by (simp add: core_x_manifest_def get_declared_packages_def dict_get_def collect_def
        iterate_def)
qed

lemma declared_malformed:
  "get_declared_packages [(''project'', TTable [(''dependencies'', TOther)])] = Inl TypeError"
  by (simp add: get_declared_packages_def dict_get_def collect_def iterate_def)

lemma freeze_x: "load_freeze [''x==1.0''] [] = [(''x'', ''1.0'')]"
  by code_simp

text \<open>
  Claim C3 as stated fails: the status is not 1 only when the staged_new bucket holds
  something. With \<^verbatim>\<open>x\<close> installed and declared in core, the bucket is empty; when
  the snapshot asked for cannot be written, the exception ends the process with status 1
  all the same. With a manifest whose dependencies are a number,
  \<^verbatim>\<open>get_declared_packages\<close> raises before any bucket exists, and the status is 1
  again.
\<close>

theorem exit_status_counterexample:
  "load_freeze (freeze snapshot_args) [] = [(''x'', ''1.0'')]
   \<and> get_declared_packages (pyproject snapshot_args)
       = Inr \<lparr>core = {''x''}, gpu = {}, staged = {}\<rparr>
   \<and> cat_staged_new (fst (categorize_packages example_pip [(''x'', ''1.0'')]
         \<lparr>core = {''x''}, gpu = {}, staged = {}\<rparr> (\<not> skip_transitive_check snapshot_args) 0)) = []
   \<and> fst (main example_pip refusing_writer ''2024-05-01 12:00'' snapshot_args 0) = Inl OSError
   \<and> process_status (fst (main example_pip refusing_writer ''2024-05-01 12:00'' snapshot_args 0))
       = 1
   \<and> get_declared_packages (pyproject malformed_args) = Inl TypeError
   \<and> process_status (fst (main example_pip accepting_writer ''2024-05-01 12:00'' malformed_args 0))
       = 1"
proof -
  have listing: "load_freeze (freeze snapshot_args) [] = [(''x'', ''1.0'')]"
    by (simp add: snapshot_args_def freeze_x del: load_freeze.simps)
  have manifest: "get_declared_packages (pyproject snapshot_args)
       = Inr \<lparr>core = {''x''}, gpu = {}, staged = {}\<rparr>"
    by (simp add: snapshot_args_def declared_core_x)
  have bucket: "cat_staged_new (fst (categorize_packages example_pip [(''x'', ''1.0'')]
         \<lparr>core = {''x''}, gpu = {}, staged = {}\<rparr> (\<not> skip_transitive_check snapshot_args) 0)) = []"
    by (simp add: single_core empty_categories_def)
  have path: "output_path snapshot_args = Some ''snapshot.toml''"
    by (simp add: snapshot_args_def)
  have refused: "fst (main example_pip refusing_writer ''2024-05-01 12:00'' snapshot_args 0)
      = Inl OSError"
    by (rule main_write_error[OF manifest path]) (simp add: refusing_writer_def)
  have malformed: "get_declared_packages (pyproject malformed_args) = Inl TypeError"
    by (simp add: malformed_args_def declared_malformed)
  have "main example_pip accepting_writer ''2024-05-01 12:00'' malformed_args 0 = (Inl TypeError, 0)"
    by (rule main_manifest_error[OF malformed])
  then have raised: "process_status
      (fst (main example_pip accepting_writer ''2024-05-01 12:00'' malformed_args 0)) = 1"
    by (simp add: process_status_def)
  have "process_status (fst (main example_pip refusing_writer ''2024-05-01 12:00'' snapshot_args 0))
       = 1"
    by (simp add: refused process_status_def)
  then show ?thesis
    using listing manifest bucket refused malformed raised by (intro conjI)
qed

text \<open>
  Claim C3, amended. In every run that reaches the end of \<^verbatim>\<open>main\<close>, the process
  ends with the status passed to \<^verbatim>\<open>sys.exit\<close>, which is 1 exactly when the
  staged_new bucket of the classification is not empty and 0 exactly when it is empty. A
  run that raises ends with status 1 whatever the buckets hold. The run raises exactly
  where the manifest is malformed or the snapshot asked for cannot be written; it reaches
  the end when the manifest parses and no snapshot is asked for or the snapshot is
  written. With the one installed package \<^verbatim>\<open>x\<close> at \<^verbatim>\<open>1.0\<close>, no declared
  package and the transitive check skipped, the status is 1; with \<^verbatim>\<open>x\<close> declared
  in core it is 0, for the classification of that dictionary and for the program without
  a snapshot, whatever the query would answer.
\<close>

theorem exit_status_of_completed_run:
  "(\<forall>out w'. main pip_show write_text now a w = (Inr out, w')
      \<longrightarrow> process_status (Inr out) = status out
        \<and> (status out = 1 \<longleftrightarrow> cat_staged_new (sorted_into out) \<noteq> [])
        \<and> (status out = 0 \<longleftrightarrow> cat_staged_new (sorted_into out) = [])
        \<and> (\<exists>decl. get_declared_packages (pyproject a) = Inr decl
              \<and> sorted_into out
                  = fst (categorize_packages pip_show (load_freeze (freeze a) []) decl
                      (\<not> skip_transitive_check a) w)))
   \<and> (\<forall>e w'. main pip_show write_text now a w = (Inl e, w') \<longrightarrow> process_status (Inl e) = 1)
   \<and> (\<forall>e. get_declared_packages (pyproject a) = Inl e
        \<longrightarrow> main pip_show write_text now a w = (Inl e, w))
   \<and> (\<forall>decl. get_declared_packages (pyproject a) = Inr decl \<and> output_path a = None
        \<longrightarrow> (\<exists>out w'. main pip_show write_text now a w = (Inr out, w')))
   \<and> (\<forall>decl path e.
        get_declared_packages (pyproject a) = Inr decl \<and> output_path a = Some path
          \<and> fst (write_text path
                (generate_snapshot (load_freeze (freeze a) []) (cluster a) (version a) now)
                (snd (categorize_packages pip_show (load_freeze (freeze a) []) decl
                        (\<not> skip_transitive_check a) w))) = Inl e
        \<longrightarrow> fst (main pip_show write_text now a w) = Inl e)
   \<and> (\<forall>decl path.
        get_declared_packages (pyproject a) = Inr decl \<and> output_path a = Some path
          \<and> fst (write_text path
                (generate_snapshot (load_freeze (freeze a) []) (cluster a) (version a) now)
                (snd (categorize_packages pip_show (load_freeze (freeze a) []) decl
                        (\<not> skip_transitive_check a) w))) = Inr ()
        \<longrightarrow> (\<exists>out w'. main pip_show write_text now a w = (Inr out, w')
              \<and> written out = Some (path,
                   generate_snapshot (load_freeze (freeze a) []) (cluster a) (version a) now)))
   \<and> (exit_status cats = 1 \<longleftrightarrow> cat_staged_new cats \<noteq> [])
   \<and> (exit_status cats = 0 \<longleftrightarrow> cat_staged_new cats = [])
   \<and> exit_status (fst (categorize_packages pip_show [(''x'', ''1.0'')]
          \<lparr>core = {}, gpu = {}, staged = {}\<rparr> False w)) = 1
   \<and> exit_status (fst (categorize_packages pip_show [(''x'', ''1.0'')]
          \<lparr>core = {''x''}, gpu = {}, staged = {}\<rparr> check_transitive w)) = 0
   \<and> process_status (fst (main pip_show write_text now
        \<lparr>freeze = [''x==1.0''], pyproject = [], output_path = None, cluster = ''unknown'',
         version = ''unknown'', skip_transitive_check = True\<rparr> w)) = 1
   \<and> process_status (fst (main pip_show write_text now
        \<lparr>freeze = [''x==1.0''], pyproject = core_x_manifest, output_path = None,
         cluster = ''unknown'', version = ''unknown'', skip_transitive_check = skip\<rparr> w)) = 0"
proof (intro conjI allI impI)
  fix out w'
  assume run: "main pip_show write_text now a w = (Inr out, w')"
  note completed = main_completed[OF run]
  show "process_status (Inr out) = status out"
    by (simp add: process_status_def)
  show "status out = 1 \<longleftrightarrow> cat_staged_new (sorted_into out) \<noteq> []"
    and "status out = 0 \<longleftrightarrow> cat_staged_new (sorted_into out) = []"
    using completed by (simp_all add: exit_status_def)
  show "\<exists>decl. get_declared_packages (pyproject a) = Inr decl
      \<and> sorted_into out
          = fst (categorize_packages pip_show (load_freeze (freeze a) []) decl
              (\<not> skip_transitive_check a) w)"
    using completed by (rule conjunct2)
next
  fix e :: py_error
  show "process_status (Inl e) = 1"
    by (simp add: process_status_def)
next
  fix e
  assume "get_declared_packages (pyproject a) = Inl e"
  then show "main pip_show write_text now a w = (Inl e, w)"
    by (rule main_manifest_error)
next
  fix decl
  assume "get_declared_packages (pyproject a) = Inr decl \<and> output_path a = None"
  then show "\<exists>out w'. main pip_show write_text now a w = (Inr out, w')"
    using main_no_output[of a decl pip_show write_text now w] by simp
next
  fix decl path e
  assume "get_declared_packages (pyproject a) = Inr decl \<and> output_path a = Some path
          \<and> fst (write_text path
                (generate_snapshot (load_freeze (freeze a) []) (cluster a) (version a) now)
                (snd (categorize_packages pip_show (load_freeze (freeze a) []) decl
                        (\<not> skip_transitive_check a) w))) = Inl e"
  then show "fst (main pip_show write_text now a w) = Inl e"
    by (intro main_write_error[of a decl path]) simp_all
next
  fix decl path
  assume "get_declared_packages (pyproject a) = Inr decl \<and> output_path a = Some path
          \<and> fst (write_text path
                (generate_snapshot (load_freeze (freeze a) []) (cluster a) (version a) now)
                (snd (categorize_packages pip_show (load_freeze (freeze a) []) decl
                        (\<not> skip_transitive_check a) w))) = Inr ()"
  then show "\<exists>out w'. main pip_show write_text now a w = (Inr out, w')
              \<and> written out = Some (path,
                   generate_snapshot (load_freeze (freeze a) []) (cluster a) (version a) now)"
    by (intro main_written[of a decl path]) simp_all
next
  show "exit_status cats = 1 \<longleftrightarrow> cat_staged_new cats \<noteq> []"
    and "exit_status cats = 0 \<longleftrightarrow> cat_staged_new cats = []"
    by (simp_all add: exit_status_def)
next
  show "exit_status (fst (categorize_packages pip_show [(''x'', ''1.0'')]
          \<lparr>core = {}, gpu = {}, staged = {}\<rparr> False w)) = 1"
    by (simp add: single_undeclared_skipped exit_status_def)
  show "exit_status (fst (categorize_packages pip_show [(''x'', ''1.0'')]
          \<lparr>core = {''x''}, gpu = {}, staged = {}\<rparr> check_transitive w)) = 0"
    by (simp add: single_core exit_status_def empty_categories_def)
next
  show "process_status (fst (main pip_show write_text now
        \<lparr>freeze = [''x==1.0''], pyproject = [], output_path = None, cluster = ''unknown'',
         version = ''unknown'', skip_transitive_check = True\<rparr> w)) = 1"
    by (simp add: main_def freeze_x declared_empty single_undeclared_skipped exit_status_def
        process_status_def del: load_freeze.simps)
  show "process_status (fst (main pip_show write_text now
        \<lparr>freeze = [''x==1.0''], pyproject = core_x_manifest, output_path = None,
         cluster = ''unknown'', version = ''unknown'', skip_transitive_check = skip\<rparr> w)) = 0"
    by (simp add: main_def freeze_x declared_core_x single_core exit_status_def
        process_status_def empty_categories_def del: load_freeze.simps)
qed

theorem exit_status_of_completed_run_witness:
  "get_declared_packages (pyproject snapshot_args) = Inr \<lparr>core = {''x''}, gpu = {}, staged = {}\<rparr>
   \<and> output_path snapshot_args = Some ''snapshot.toml''
   \<and> main example_pip accepting_writer ''2024-05-01 12:00'' snapshot_args 0
       = (Inr \<lparr>sorted_into = empty_categories\<lparr>cat_core := [(''x'', ''1.0'')]\<rparr>,
               written = Some (''snapshot.toml'',
                 generate_snapshot [(''x'', ''1.0'')] ''unknown'' ''unknown'' ''2024-05-01 12:00''),
               status = 0\<rparr>, 0)
   \<and> process_status (Inr \<lparr>sorted_into = empty_categories\<lparr>cat_core := [(''x'', ''1.0'')]\<rparr>,
               written = Some (''snapshot.toml'',
                 generate_snapshot [(''x'', ''1.0'')] ''unknown'' ''unknown'' ''2024-05-01 12:00''),
               status = 0\<rparr>) = 0
   \<and> cat_staged_new (empty_categories\<lparr>cat_core := [(''x'', ''1.0'')]\<rparr>) = []
   \<and> main example_pip refusing_writer ''2024-05-01 12:00'' snapshot_args 0 = (Inl OSError, 0)
   \<and> process_status (Inl OSError) = 1
   \<and> get_declared_packages (pyproject malformed_args) = Inl TypeError
   \<and> main example_pip accepting_writer ''2024-05-01 12:00'' malformed_args 0 = (Inl TypeError, 0)"
proof -
  let ?out = "\<lparr>sorted_into = empty_categories\<lparr>cat_core := [(''x'', ''1.0'')]\<rparr>,
               written = Some (''snapshot.toml'',
                 generate_snapshot [(''x'', ''1.0'')] ''unknown'' ''unknown'' ''2024-05-01 12:00''),
               status = 0\<rparr>"
  have manifest: "get_declared_packages (pyproject snapshot_args)
       = Inr \<lparr>core = {''x''}, gpu = {}, staged = {}\<rparr>"
    by (simp add: snapshot_args_def declared_core_x)
  have path: "output_path snapshot_args = Some ''snapshot.toml''"
    by (simp add: snapshot_args_def)
  have run: "main example_pip accepting_writer ''2024-05-01 12:00'' snapshot_args 0
      = (Inr ?out, 0)"
    by (simp add: main_def snapshot_args_def freeze_x declared_core_x single_core
        accepting_writer_def exit_status_def empty_categories_def Let_def
        del: load_freeze.simps)
  have refused: "main example_pip refusing_writer ''2024-05-01 12:00'' snapshot_args 0
      = (Inl OSError, 0)"
    by (simp add: main_def snapshot_args_def freeze_x declared_core_x single_core
        refusing_writer_def Let_def del: load_freeze.simps)
  have malformed: "get_declared_packages (pyproject malformed_args) = Inl TypeError"
    by (simp add: malformed_args_def declared_malformed)
  note completed = exit_status_of_completed_run[of example_pip accepting_writer
      "''2024-05-01 12:00''" snapshot_args 0, THEN conjunct1, rule_format, OF run]
  note raised = exit_status_of_completed_run[of example_pip refusing_writer
      "''2024-05-01 12:00''" snapshot_args 0, THEN conjunct2, THEN conjunct1, rule_format,
      OF refused]
  note stopped = exit_status_of_completed_run[of example_pip accepting_writer
      "''2024-05-01 12:00''" malformed_args 0, THEN conjunct2, THEN conjunct2, THEN conjunct1,
      rule_format, OF malformed]
  have status: "process_status (Inr ?out) = 0"
    using completed[THEN conjunct1] by simp
  have "cat_staged_new (sorted_into ?out) = []"
    by (rule completed[THEN conjunct2, THEN conjunct2, THEN conjunct1, THEN iffD1]) simp
  then have bucket: "cat_staged_new (empty_categories\<lparr>cat_core := [(''x'', ''1.0'')]\<rparr>) = []"
    by simp
  show ?thesis
    using manifest path run status bucket refused raised malformed stopped by (intro conjI)
qed

section \<open>The declared sets\<close>

lemma add_names_strings:
  "add_names (map TString reqs) names = Inr (names \<union> declared_names reqs)"
  by (induction reqs arbitrary: names) (auto simp: declared_names_def Let_def)

lemma collect_strings: "collect (TArray (map TString reqs)) = Inr (declared_names reqs)"
  by (simp add: collect_def iterate_def add_names_strings)

lemma get_declared_packages_lists:
  assumes "dict_get (TTable manifest) ''project'' (TTable []) = Inr project"
    and "dict_get project ''dependencies'' (TArray []) = Inr (TArray (map TString core_reqs))"
    and "dict_get project ''optional-dependencies'' (TTable []) = Inr optional"
    and "dict_get optional ''gpu'' (TArray []) = Inr (TArray (map TString gpu_reqs))"
    and "dict_get optional ''staged'' (TArray []) = Inr (TArray (map TString staged_reqs))"
  shows "get_declared_packages manifest
    = Inr \<lparr>core = declared_names core_reqs, gpu = declared_names gpu_reqs,
           staged = declared_names staged_reqs\<rparr>"
  using assms by (simp add: get_declared_packages_def collect_strings)

text \<open>
  Claim C5 as stated fails: a manifest that lists \<^verbatim>\<open>numpy\<close> both under the
  dependencies and under the optional gpu group is parsed into a core set and a gpu set
  that share the name.
\<close>

theorem declared_sets_overlap_counterexample:
  "get_declared_packages
     [(''project'',
       TTable [(''dependencies'', TArray [TString ''numpy>=1.26'']),
               (''optional-dependencies'', TTable [(''gpu'', TArray [TString ''NumPy'' ])])])]
     = Inr \<lparr>core = {''numpy''}, gpu = {''numpy''}, staged = {}\<rparr>
   \<and> \<not> disjoint_declared \<lparr>core = {''numpy''}, gpu = {''numpy''}, staged = {}\<rparr>"
proof -
  have "parse_requirement ''numpy>=1.26'' = ''numpy''" "parse_requirement ''NumPy'' = ''numpy''"
    by code_simp+
  then show ?thesis
    by (simp add: get_declared_packages_def dict_get_def collect_def iterate_def
        disjoint_declared_def)
qed

text \<open>
  Claim C5, amended. For a manifest in which the three lists
  \<^verbatim>\<open>get_declared_packages\<close> reads (the dependencies and the optional groups gpu and
  staged, each empty when its key is absent) are lists of requirement strings, the
  function returns for each list the set of the non-empty names \<^verbatim>\<open>parse_requirement\<close>
  gives for its entries. It removes no overlap: the three sets are pairwise disjoint
  exactly when no name is declared in two of the lists.
\<close>

theorem get_declared_packages_sets:
  assumes "dict_get (TTable manifest) ''project'' (TTable []) = Inr project"
    and "dict_get project ''dependencies'' (TArray []) = Inr (TArray (map TString core_reqs))"
    and "dict_get project ''optional-dependencies'' (TTable []) = Inr optional"
    and "dict_get optional ''gpu'' (TArray []) = Inr (TArray (map TString gpu_reqs))"
    and "dict_get optional ''staged'' (TArray []) = Inr (TArray (map TString staged_reqs))"
  shows "get_declared_packages manifest
      = Inr \<lparr>core = declared_names core_reqs, gpu = declared_names gpu_reqs,
             staged = declared_names staged_reqs\<rparr>
    \<and> (disjoint_declared \<lparr>core = declared_names core_reqs, gpu = declared_names gpu_reqs,
             staged = declared_names staged_reqs\<rparr> \<longleftrightarrow>
          declared_names core_reqs \<inter> declared_names gpu_reqs = {}
          \<and> declared_names core_reqs \<inter> declared_names staged_reqs = {}
          \<and> declared_names gpu_reqs \<inter> declared_names staged_reqs = {})"
  using get_declared_packages_lists[OF assms] by (simp add: disjoint_declared_def)

theorem get_declared_packages_sets_witness:
  "dict_get (TTable example_manifest) ''project'' (TTable []) = Inr (TTable example_project)
   \<and> dict_get (TTable example_project) ''dependencies'' (TArray [])
       = Inr (TArray (map TString [''numpy>=1.26'', ''scanpy[cuda12]>=1.10'', ''###'']))
   \<and> dict_get (TTable example_project) ''optional-dependencies'' (TTable [])
       = Inr (TTable [(''gpu'', TArray [TString ''Torch'' ])])
   \<and> dict_get (TTable [(''gpu'', TArray [TString ''Torch'' ])]) ''gpu'' (TArray [])
       = Inr (TArray (map TString [''Torch'' ]))
   \<and> dict_get (TTable [(''gpu'', TArray [TString ''Torch'' ])]) ''staged'' (TArray [])
       = Inr (TArray (map TString []))
   \<and> get_declared_packages example_manifest
       = Inr \<lparr>core = {''numpy'', ''scanpy''}, gpu = {''torch''}, staged = {}\<rparr>
   \<and> disjoint_declared \<lparr>core = {''numpy'', ''scanpy''}, gpu = {''torch''}, staged = {}\<rparr>"
proof -
  have project: "dict_get (TTable example_manifest) ''project'' (TTable [])
      = Inr (TTable example_project)"
    by (simp add: dict_get_def example_manifest_def)
  have deps: "dict_get (TTable example_project) ''dependencies'' (TArray [])
       = Inr (TArray (map TString [''numpy>=1.26'', ''scanpy[cuda12]>=1.10'', ''###'']))"
    by (simp add: dict_get_def example_project_def)
  have optional: "dict_get (TTable example_project) ''optional-dependencies'' (TTable [])
       = Inr (TTable [(''gpu'', TArray [TString ''Torch'' ])])"
    by (simp add: dict_get_def example_project_def)
  have gpu: "dict_get (TTable [(''gpu'', TArray [TString ''Torch'' ])]) ''gpu'' (TArray [])
       = Inr (TArray (map TString [''Torch'' ]))"
    by (simp add: dict_get_def)
  have staged: "dict_get (TTable [(''gpu'', TArray [TString ''Torch'' ])]) ''staged'' (TArray [])
       = Inr (TArray (map TString []))"
    by (simp add: dict_get_def)
  have names: "declared_names [''numpy>=1.26'', ''scanpy[cuda12]>=1.10'', ''###'']
      = {''numpy'', ''scanpy''}" "declared_names [''Torch'' ] = {''torch''}"
    "declared_names [] = {}"
  proof -
    have "parse_requirement ''numpy>=1.26'' = ''numpy''"
      "parse_requirement ''scanpy[cuda12]>=1.10'' = ''scanpy''"
      "parse_requirement ''###'' = []" "parse_requirement ''Torch'' = ''torch''"
      by code_simp+
    then show "declared_names [''numpy>=1.26'', ''scanpy[cuda12]>=1.10'', ''###'']
      = {''numpy'', ''scanpy''}" "declared_names [''Torch'' ] = {''torch''}"
      "declared_names [] = {}"
      by (auto simp: declared_names_def)
  qed
  note sets = get_declared_packages_sets[OF project deps optional gpu staged, unfolded names]
  have "disjoint_declared \<lparr>core = {''numpy'', ''scanpy''}, gpu = {''torch''}, staged = {}\<rparr>"
    by (rule sets[THEN conjunct2, THEN iffD2]) simp
  then show ?thesis
    using project deps optional gpu staged sets[THEN conjunct1] by (intro conjI)
qed

section \<open>The snapshot\<close>

lemma sorted_names: "sorted (map fst (sort (items :: (string \<times> string) list)))"
proof -
  have "sorted (map fst xs)" if "sorted xs" for xs :: "(string \<times> string) list"
    using that by (induction xs) (auto simp: less_eq_prod_def)
  then show ?thesis
    by simp
qed

lemma snapshot_lines_length:
  "length (snapshot_lines installed cl ver now) = 7 + length installed"
  by (simp add: snapshot_lines_def snapshot_header_def)

lemma snapshot_lines_header:
  "take 7 (snapshot_lines installed cl ver now) = snapshot_header installed cl ver now"
  by (simp add: snapshot_lines_def snapshot_header_def)

lemma snapshot_lines_entries:
  "drop 7 (snapshot_lines installed cl ver now) = map snapshot_entry (sort installed)"
  by (simp add: snapshot_lines_def snapshot_header_def)

text \<open>
  Claim C9. For every installed dictionary the snapshot is the lines of
  \<open>snapshot_lines\<close> joined by line feeds: five comment lines (title, cluster, version,
  date, number of packages), an empty line, the line \<^verbatim>\<open>[packages]\<close>, and then one
  line \<^verbatim>\<open>name = "version"\<close> for each installed package, in the order of the
  names. For the dictionary \<^verbatim>\<open>{"a": "1.0", "b": "2.0"}\<close>, in either insertion
  order, the lines after the header are \<^verbatim>\<open>a = "1.0"\<close> and \<^verbatim>\<open>b = "2.0"\<close>.
\<close>

theorem generate_snapshot_layout:
  "generate_snapshot installed cl ver now = join [newline] (snapshot_lines installed cl ver now)
   \<and> length (snapshot_lines installed cl ver now) = 7 + length installed
   \<and> take 7 (snapshot_lines installed cl ver now)
       = [''# Python package snapshot'', ''# Cluster: '' @ cl, ''# Bioc Version: '' @ ver,
          ''# Date: '' @ now, ''# Packages: '' @ str_nat (length installed), [], ''[packages]'']
   \<and> list_all (\<lambda>line. startswith line ''#'') (take 5 (snapshot_lines installed cl ver now))
   \<and> drop 7 (snapshot_lines installed cl ver now)
       = map (\<lambda>(pkg, v). pkg @ '' = '' @ [dquote] @ v @ [dquote]) (sort installed)
   \<and> set (sort installed) = set installed
   \<and> length (sort installed) = length installed
   \<and> sorted (map fst (sort installed))
   \<and> drop 6 (snapshot_lines [(''a'', ''1.0''), (''b'', ''2.0'')] cl ver now)
       = [''[packages]'', ''a = '' @ [dquote] @ ''1.0'' @ [dquote],
          ''b = '' @ [dquote] @ ''2.0'' @ [dquote]]
   \<and> drop 6 (snapshot_lines [(''b'', ''2.0''), (''a'', ''1.0'')] cl ver now)
       = [''[packages]'', ''a = '' @ [dquote] @ ''1.0'' @ [dquote],
          ''b = '' @ [dquote] @ ''2.0'' @ [dquote]]
   \<and> generate_snapshot [(''a'', ''1.0''), (''b'', ''2.0'')] ''gemini'' ''3.19'' ''2024-05-01 12:00''
       = ''# Python package snapshot'' @ [newline] @ ''# Cluster: gemini'' @ [newline]
         @ ''# Bioc Version: 3.19'' @ [newline] @ ''# Date: 2024-05-01 12:00'' @ [newline]
         @ ''# Packages: 2'' @ [newline] @ [newline] @ ''[packages]'' @ [newline]
         @ ''a = '' @ [dquote] @ ''1.0'' @ [dquote] @ [newline]
         @ ''b = '' @ [dquote] @ ''2.0'' @ [dquote]"
proof (intro conjI)
  show "generate_snapshot installed cl ver now
      = join [newline] (snapshot_lines installed cl ver now)"
    by (simp add: generate_snapshot_def)
  show "length (snapshot_lines installed cl ver now) = 7 + length installed"
    by (rule snapshot_lines_length)
  show "take 7 (snapshot_lines installed cl ver now)
       = [''# Python package snapshot'', ''# Cluster: '' @ cl, ''# Bioc Version: '' @ ver,
          ''# Date: '' @ now, ''# Packages: '' @ str_nat (length installed), [], ''[packages]'']"
    by (simp add: snapshot_lines_header snapshot_header_def)
  show "list_all (\<lambda>line. startswith line ''#'') (take 5 (snapshot_lines installed cl ver now))"
    by (simp add: snapshot_lines_def snapshot_header_def startswith_def)
  show "drop 7 (snapshot_lines installed cl ver now)
       = map (\<lambda>(pkg, v). pkg @ '' = '' @ [dquote] @ v @ [dquote]) (sort installed)"
    by (simp add: snapshot_lines_entries snapshot_entry_def[abs_def])
  show "set (sort installed) = set installed" "length (sort installed) = length installed"
    by simp_all
  show "sorted (map fst (sort installed))"
    by (rule sorted_names)
  show "drop 6 (snapshot_lines [(''a'', ''1.0''), (''b'', ''2.0'')] cl ver now)
       = [''[packages]'', ''a = '' @ [dquote] @ ''1.0'' @ [dquote],
          ''b = '' @ [dquote] @ ''2.0'' @ [dquote]]"
    by (simp add: snapshot_lines_def snapshot_header_def snapshot_entry_def)
  show "drop 6 (snapshot_lines [(''b'', ''2.0''), (''a'', ''1.0'')] cl ver now)
       = [''[packages]'', ''a = '' @ [dquote] @ ''1.0'' @ [dquote],
          ''b = '' @ [dquote] @ ''2.0'' @ [dquote]]"
    by (simp add: snapshot_lines_def snapshot_header_def snapshot_entry_def)
  show "generate_snapshot [(''a'', ''1.0''), (''b'', ''2.0'')] ''gemini'' ''3.19''
          ''2024-05-01 12:00''
       = ''# Python package snapshot'' @ [newline] @ ''# Cluster: gemini'' @ [newline]
         @ ''# Bioc Version: 3.19'' @ [newline] @ ''# Date: 2024-05-01 12:00'' @ [newline]
         @ ''# Packages: 2'' @ [newline] @ [newline] @ ''[packages]'' @ [newline]
         @ ''a = '' @ [dquote] @ ''1.0'' @ [dquote] @ [newline]
         @ ''b = '' @ [dquote] @ ''2.0'' @ [dquote]"
    by code_simp
qed

theorem generate_snapshot_layout_witness:
  "drop 7 (snapshot_lines [(''scanpy'', ''1.10''), (''numpy'', ''1.26'')] ''gemini'' ''3.19''
      ''2024-05-01 12:00'')
     = [''numpy = '' @ [dquote] @ ''1.26'' @ [dquote], ''scanpy = '' @ [dquote] @ ''1.10'' @ [dquote]]
   \<and> sorted (map fst (sort [(''scanpy'', ''1.10''), (''numpy'', ''1.26'')]))
   \<and> length (snapshot_lines [(''scanpy'', ''1.10''), (''numpy'', ''1.26'')] ''gemini'' ''3.19''
        ''2024-05-01 12:00'') = 9"
proof -
  note parts = generate_snapshot_layout[of "[(''scanpy'', ''1.10''), (''numpy'', ''1.26'')]"
      "''gemini''" "''3.19''" "''2024-05-01 12:00''"]
  have order: "sort [(''scanpy'', ''1.10''), (''numpy'', ''1.26'')]
      = [(''numpy'', ''1.26''), (''scanpy'', ''1.10'')]"
    by code_simp
  note entries = parts[THEN conjunct2, THEN conjunct2, THEN conjunct2, THEN conjunct2,
      THEN conjunct1, unfolded order]
  note names = parts[THEN conjunct2, THEN conjunct2, THEN conjunct2, THEN conjunct2,
      THEN conjunct2, THEN conjunct2, THEN conjunct2, THEN conjunct1]
  note count = parts[THEN conjunct2, THEN conjunct1]
  show ?thesis
    using entries names count by simp
qed

end
